theory Spec2Isabelle
  imports Complex_Main
begin

section \<open>Strings\<close>

text \<open>
  Python strings are modelled as \<^typ>\<open>string\<close>, a character being a code point below
  256. The functions below are the string operations the program uses: \<open>str.lower\<close>,
  \<open>str.upper\<close>, the substring test \<open>k in s\<close>, \<open>sep.join\<close>, \<open>str.strip\<close> and
  \<open>str.split\<close>. \<open>str.lower\<close> maps the letters \<open>A\<close> to \<open>Z\<close> and the capital letters
  of Latin-1 (192 to 222 but for the sign 215) to their small forms, 32 code points up.
\<close>

definition lower_char :: "char \<Rightarrow> char" where
  "lower_char c =
     (let n = (of_char c :: nat)
      in if (65 \<le> n \<and> n \<le> 90) \<or> (192 \<le> n \<and> n \<le> 222 \<and> n \<noteq> 215)
         then char_of (n + 32) else c)"

definition lower :: "string \<Rightarrow> string" where
  "lower s = map lower_char s"

text \<open>
  \<open>str.upper\<close> leaves the code points below 256: the capital of 223 (sharp s) is the two
  letters \<open>SS\<close>, that of 181 (micro sign) is 924 and that of 255 is 376. Its result is
  therefore a list of code points, \<open>codes s\<close> being the code points of a string \<open>s\<close>.
  The letters \<open>a\<close> to \<open>z\<close> and the small letters of Latin-1 (224 to 254 but for the
  sign 247) go 32 code points down; every other character stays.
\<close>

definition codes :: "string \<Rightarrow> nat list" where
  "codes s = map of_char s"

definition upper_char :: "char \<Rightarrow> nat list" where
  "upper_char c =
     (let n = (of_char c :: nat)
      in if (97 \<le> n \<and> n \<le> 122) \<or> (224 \<le> n \<and> n \<le> 254 \<and> n \<noteq> 247) then [n - 32]
         else if n = 223 then [83, 83]
         else if n = 181 then [924]
         else if n = 255 then [376]
         else [n])"

definition upper :: "string \<Rightarrow> nat list" where
  "upper s = concat (map upper_char s)"

fun startswith :: "string \<Rightarrow> string \<Rightarrow> bool" where
  "startswith s [] = True"
| "startswith [] (k # ks) = False"
| "startswith (c # cs) (k # ks) = (c = k \<and> startswith cs ks)"

text \<open>\<open>substring_in k s\<close> is Python's \<open>k in s\<close> on strings.\<close>

fun substring_in :: "string \<Rightarrow> string \<Rightarrow> bool" where
  "substring_in k [] = (k = [])"
| "substring_in k (c # cs) = (startswith (c # cs) k \<or> substring_in k cs)"

section \<open>Regular expressions\<close>

text \<open>
  The confirm patterns are handed to \<open>re.search\<close>. Python's \<open>re\<close> module is not part of
  the repository; a pattern is represented by what \<open>re\<close> makes of its text: a regular
  expression, or nothing when the text cannot be parsed, in which case \<open>re.search\<close>
  raises \<open>re.error\<close>. \<open>Dot\<close> is \<open>.\<close> (any character but a newline), \<open>AnyChar\<close> any
  character at all, \<open>Range a b\<close> the class \<open>[a-b]\<close>.
\<close>

datatype rx =
    Never
  | Empty
  | Lit char
  | Dot
  | AnyChar
  | Range char char
  | Cat rx rx
  | Alt rx rx
  | Star rx

fun nullable :: "rx \<Rightarrow> bool" where
  "nullable Never = False"
| "nullable Empty = True"
| "nullable (Lit c) = False"
| "nullable Dot = False"
| "nullable AnyChar = False"
| "nullable (Range a b) = False"
| "nullable (Cat r s) = (nullable r \<and> nullable s)"
| "nullable (Alt r s) = (nullable r \<or> nullable s)"
| "nullable (Star r) = True"

fun deriv :: "char \<Rightarrow> rx \<Rightarrow> rx" where
  "deriv c Never = Never"
| "deriv c Empty = Never"
| "deriv c (Lit d) = (if c = d then Empty else Never)"
| "deriv c Dot = (if c = CHR 0x0A then Never else Empty)"
| "deriv c AnyChar = Empty"
| "deriv c (Range a b) =
     (if (of_char a :: nat) \<le> of_char c \<and> (of_char c :: nat) \<le> of_char b then Empty else Never)"
| "deriv c (Cat r s) =
     (if nullable r then Alt (Cat (deriv c r) s) (deriv c s) else Cat (deriv c r) s)"
| "deriv c (Alt r s) = Alt (deriv c r) (deriv c s)"
| "deriv c (Star r) = Cat (deriv c r) (Star r)"

text \<open>\<open>fullmatch r s\<close>: the whole of \<open>s\<close> is a word of \<open>r\<close>.\<close>

fun fullmatch :: "rx \<Rightarrow> string \<Rightarrow> bool" where
  "fullmatch r [] = nullable r"
| "fullmatch r (c # cs) = fullmatch (deriv c r) cs"

text \<open>\<open>match_here r s\<close>: some prefix of \<open>s\<close> is a word of \<open>r\<close> (\<open>re.match\<close>).\<close>

fun match_here :: "rx \<Rightarrow> string \<Rightarrow> bool" where
  "match_here r [] = nullable r"
| "match_here r (c # cs) = (nullable r \<or> match_here (deriv c r) cs)"

text \<open>\<open>rx_search r s\<close>: a word of \<open>r\<close> starts at some position of \<open>s\<close>.\<close>

fun rx_search :: "rx \<Rightarrow> string \<Rightarrow> bool" where
  "rx_search r [] = nullable r"
| "rx_search r (c # cs) = (match_here r (c # cs) \<or> rx_search r cs)"

definition lit :: "string \<Rightarrow> rx" where
  "lit s = foldr (\<lambda>c r. Cat (Lit c) r) s Empty"

definition seq :: "rx list \<Rightarrow> rx" where
  "seq rs = foldr Cat rs Empty"

definition skip :: rx where
  "skip = Star Dot"

definition digit :: rx where
  "digit = Range (CHR ''0'') (CHR ''9'')"

definition plus_rx :: "rx \<Rightarrow> rx" where
  "plus_rx r = Cat r (Star r)"

definition at_least :: "nat \<Rightarrow> rx \<Rightarrow> rx" where
  "at_least n r = seq (replicate n r @ [Star r])"

datatype error =
    RegexError string
  | ValueError string
  | GitError string
  | YAMLError string
  | TypeError string
  | OSError string

datatype pattern = Regex rx | Malformed string

fun re_search :: "pattern \<Rightarrow> string \<Rightarrow> error + bool" where
  "re_search (Regex r) s = Inr (rx_search r s)"
| "re_search (Malformed text) s = Inl (RegexError text)"

section \<open>Globs and paths\<close>

text \<open>
  File patterns are handed to \<open>Path(file).match(pattern)\<close>. \<open>pathlib\<close> and \<open>fnmatch\<close> are
  not part of the repository either; a relative glob pattern is represented by its
  components (the pieces between \<open>/\<close>), each as the regular expression \<open>fnmatch\<close>
  translates it to (\<open>*\<close> is \<open>Star AnyChar\<close>, \<open>?\<close> is \<open>AnyChar\<close>). A pattern without
  components (the text \<open>""\<close> or \<open>"."\<close>) makes \<open>match\<close> raise \<open>ValueError\<close>.
\<close>

type_synonym glob = "rx list"

definition star :: rx where
  "star = Star AnyChar"

text \<open>\<open>split_on sep s\<close> is \<open>s.split(sep)\<close> for a separator of one character.\<close>

fun split_on :: "char \<Rightarrow> string \<Rightarrow> string list" where
  "split_on sep [] = [[]]"
| "split_on sep (c # cs) =
     (if c = sep then [] # split_on sep cs
      else (case split_on sep cs of [] \<Rightarrow> [[c]] | p # ps \<Rightarrow> (c # p) # ps))"

definition path_root :: "string \<Rightarrow> string" where
  "path_root p =
     (if startswith p ''//'' \<and> \<not> startswith p ''///'' then ''//''
      else if startswith p ''/'' then ''/''
      else [])"

text \<open>The parts of a POSIX path: the root if there is one, then the components that are
  neither empty nor \<open>.\<close>.\<close>

definition path_parts :: "string \<Rightarrow> string list" where
  "path_parts p =
     (let comps = filter (\<lambda>x. x \<noteq> [] \<and> x \<noteq> ''.'') (split_on (CHR ''/'') p)
      in if path_root p = [] then comps else path_root p # comps)"

text \<open>\<open>PurePath.match\<close> with a relative pattern: the pattern's components are matched
  against the path's parts from the right.\<close>

definition path_match :: "string \<Rightarrow> glob \<Rightarrow> error + bool" where
  "path_match file pat =
     (if pat = [] then Inl (ValueError ''empty pattern'')
      else Inr (length pat \<le> length (path_parts file) \<and>
                list_all (\<lambda>(part, p). fullmatch p part) (zip (rev (path_parts file)) (rev pat))))"

section \<open>Configuration\<close>

text \<open>
  One entry of \<open>config['patterns']\<close>. The code reads each field with
  \<open>config.get(field, [])\<close>, so an absent field is the empty list. (The field \<open>keywords\<close> is named
  \<open>rule_keywords\<close>: the plain name is reserved.)
\<close>

record rule =
  rule_keywords :: "string list"
  regex :: "pattern list"
  file_patterns :: "glob list"
  exclude :: "string list"

text \<open>
  The configuration dictionary, with its two sections \<open>'patterns'\<close> and \<open>'severity'\<close>.
  A Python dictionary iterates in insertion order, so each section is an association
  list in the order of the configuration.
\<close>

record config =
  cfg_patterns :: "(string \<times> rule) list"
  cfg_severity :: "(string \<times> string list) list"

definition default_patterns :: "(string \<times> rule) list" where
  "default_patterns =
   [(''manual_deploy'',
     \<lparr>rule_keywords = [''deploy'', ''deployment'', ''production deploy'', ''prod deploy''],
      regex = [Regex (seq [lit ''deploy'', skip, lit ''production'']),
               Regex (seq [lit ''prod'', skip, lit ''deploy'']),
               Regex (seq [lit ''release'', skip, lit ''v'', plus_rx digit, lit ''.'', plus_rx digit]),
               Regex (seq [lit ''pipeline'', skip, lit ''run''])],
      file_patterns = [[seq [lit ''deploy'', star, lit ''.sh'']],
                       [seq [lit ''docker-compose.'', star, lit ''.yml'']],
                       [lit ''k8s'', seq [star, lit ''.yaml'']]],
      exclude = [''test'', ''staging'', ''dev'']\<rparr>),
    (''manual_fix'',
     \<lparr>rule_keywords = [''fix'', ''hotfix'', ''emergency'', ''manual'', ''patch''],
      regex = [Regex (seq [lit ''emergency'', skip, lit ''fix'']),
               Regex (seq [lit ''critical'', skip, lit ''bug'']),
               Regex (seq [lit ''manual'', skip, lit ''intervention'']),
               Regex (seq [lit ''hotfix'', skip, plus_rx digit])],
      file_patterns = [[seq [star, lit ''.patch'']], [seq [lit ''hotfix'', star]]],
      exclude = [''test'', ''unit test'']\<rparr>),
    (''revert'',
     \<lparr>rule_keywords = [''revert'', ''rollback'', ''backed out''],
      regex = [Regex (seq [lit ''revert'', skip,
                           at_least 7 (Alt (Range (CHR ''a'') (CHR ''f'')) digit)]),
               Regex (seq [lit ''rollback'', skip, lit ''version'']),
               Regex (seq [lit ''backed out'', skip, lit ''changes''])],
      file_patterns = [],
      exclude = []\<rparr>),
    (''env_setup'',
     \<lparr>rule_keywords = [''env'', ''environment'', ''setup'', ''config'', ''configuration''],
      regex = [Regex (seq [lit ''environment'', skip, lit ''setup'']),
               Regex (seq [lit ''config'', skip, lit ''change'']),
               Regex (seq [lit ''infrastructure'', skip, lit ''update'']),
               Regex (seq [lit ''terraform'', skip, lit ''apply''])],
      file_patterns = [[seq [star, lit ''.tf'']], [lit ''ansible'', star], [lit ''puppet'', star],
                       [lit ''chef'', star], [lit ''Dockerfile'']],
      exclude = []\<rparr>),
    (''restart'',
     \<lparr>rule_keywords = [''restart'', ''reboot'', ''restart service''],
      regex = [Regex (seq [lit ''service'', skip, lit ''restart'']),
               Regex (seq [lit ''server'', skip, lit ''reboot'']),
               Regex (seq [lit ''container'', skip, lit ''restart''])],
      file_patterns = [],
      exclude = []\<rparr>),
    (''pipeline_issue'',
     \<lparr>rule_keywords = [''pipeline'', ''ci'', ''cd'', ''build''],
      regex = [Regex (seq [lit ''pipeline'', skip, lit ''failed'']),
               Regex (seq [lit ''ci'', skip, lit ''fix'']),
               Regex (seq [lit ''build'', skip, lit ''broken'']),
               Regex (seq [lit ''jenkins'', skip, lit ''issue''])],
      file_patterns = [[seq [star, lit ''.yml'']], [lit ''Jenkinsfile''],
                       [lit ''.github'', lit ''workflows'', star]],
      exclude = []\<rparr>),
    (''kubernetes'',
     \<lparr>rule_keywords = [''k8s'', ''kubernetes'', ''kubectl'', ''pod''],
      regex = [Regex (seq [lit ''kubectl'', skip, lit ''apply'']),
               Regex (seq [lit ''k8s'', skip, lit ''restart'']),
               Regex (seq [lit ''pod'', skip, lit ''crash'']),
               Regex (seq [lit ''deployment'', skip, lit ''rollback''])],
      file_patterns = [[lit ''k8s'', seq [star, lit ''.yaml'']],
                       [lit ''kubernetes'', seq [star, lit ''.yaml'']]],
      exclude = []\<rparr>)]"

definition default_severity :: "(string \<times> string list) list" where
  "default_severity =
   [(''high'', [''emergency'', ''critical'', ''urgent'', ''outage'', ''downtime'', ''security'']),
    (''medium'', [''hotfix'', ''production'', ''manual'', ''ci'', ''pipeline'']),
    (''low'', [''update'', ''config'', ''restart'', ''env''])]"

definition default_config :: config where
  "default_config = \<lparr>cfg_patterns = default_patterns, cfg_severity = default_severity\<rparr>"

text \<open>
  A user's file that is a mapping, as far as the detector reads it: each of the two
  top-level keys is present or absent.
\<close>

record user_config =
  usr_patterns :: "(string \<times> rule) list option"
  usr_severity :: "(string \<times> string list) list option"

text \<open>
  What \<open>yaml.safe_load\<close> delivers: a mapping, or a value that
  \<open>default_config.update\<close> refuses with the given exception (\<open>None\<close> for an empty
  file and a number raise \<open>TypeError\<close>, a plain text raises \<open>ValueError\<close>).
\<close>

datatype yaml_doc = Mapping user_config | Unmergeable error

text \<open>
  \<open>_load_config\<close>. The argument is \<open>None\<close> when no path is given or the file does
  not exist; otherwise it is the outcome of \<open>yaml.safe_load\<close>, whose exception is
  not caught. \<open>default_config.update(user_config)\<close> replaces each top-level key the
  user's file has; its exception is not caught either.
\<close>

definition load_config :: "(error + yaml_doc) option \<Rightarrow> error + config" where
  "load_config file =
     (case file of
        None \<Rightarrow> Inr default_config
      | Some (Inl e) \<Rightarrow> Inl e
      | Some (Inr (Unmergeable e)) \<Rightarrow> Inl e
      | Some (Inr (Mapping user)) \<Rightarrow>
          Inr \<lparr>cfg_patterns = (case usr_patterns user of None \<Rightarrow> default_patterns | Some p \<Rightarrow> p),
               cfg_severity = (case usr_severity user of None \<Rightarrow> default_severity | Some s \<Rightarrow> s)\<rparr>)"

section \<open>The classifier\<close>

text \<open>
  Both passes walk \<open>config['patterns'].items()\<close> and return the name of the first
  entry for which a test holds; the test may raise, which ends the walk.
\<close>

fun first_match :: "('a \<Rightarrow> error + bool) \<Rightarrow> (string \<times> 'a) list \<Rightarrow> error + string option" where
  "first_match test [] = Inr None"
| "first_match test ((task_type, config) # rest) =
     (case test config of
        Inl e \<Rightarrow> Inl e
      | Inr b \<Rightarrow> if b then Inr (Some task_type) else first_match test rest)"

text \<open>\<open>any(re.search(pattern, message_lower) for pattern in regex_patterns)\<close>: the
  patterns are tried in order, up to the first that matches.\<close>

fun any_search :: "pattern list \<Rightarrow> string \<Rightarrow> error + bool" where
  "any_search [] m = Inr False"
| "any_search (p # ps) m =
     (case re_search p m of
        Inl e \<Rightarrow> Inl e
      | Inr b \<Rightarrow> if b then Inr True else any_search ps m)"

definition keyword_hit :: "rule \<Rightarrow> string \<Rightarrow> bool" where
  "keyword_hit config message_lower =
     list_ex (\<lambda>keyword. substring_in keyword message_lower) (rule_keywords config)"

definition confirmed :: "rule \<Rightarrow> string \<Rightarrow> error + bool" where
  "confirmed config message_lower =
     (if regex config = [] then Inr True else any_search (regex config) message_lower)"

definition excluded :: "rule \<Rightarrow> string \<Rightarrow> bool" where
  "excluded config message_lower =
     list_ex (\<lambda>exclusion. substring_in exclusion message_lower) (exclude config)"

text \<open>The body of the loop of \<open>_analyze_commit_message\<close> for one rule.\<close>

definition rule_matches :: "string \<Rightarrow> rule \<Rightarrow> error + bool" where
  "rule_matches message_lower config =
     (if keyword_hit config message_lower then
        (case confirmed config message_lower of
           Inl e \<Rightarrow> Inl e
         | Inr ok \<Rightarrow> Inr (ok \<and> \<not> excluded config message_lower))
      else Inr False)"

definition analyze_commit_message :: "(string \<times> rule) list \<Rightarrow> string \<Rightarrow> error + string option" where
  "analyze_commit_message pats message = first_match (rule_matches (lower message)) pats"

fun any_file_matches :: "string list \<Rightarrow> glob \<Rightarrow> error + bool" where
  "any_file_matches [] pat = Inr False"
| "any_file_matches (file # rest) pat =
     (case path_match file pat of
        Inl e \<Rightarrow> Inl e
      | Inr b \<Rightarrow> if b then Inr True else any_file_matches rest pat)"

fun any_pattern_matches :: "string list \<Rightarrow> glob list \<Rightarrow> error + bool" where
  "any_pattern_matches files [] = Inr False"
| "any_pattern_matches files (pat # rest) =
     (case any_file_matches files pat of
        Inl e \<Rightarrow> Inl e
      | Inr b \<Rightarrow> if b then Inr True else any_pattern_matches files rest)"

definition files_match :: "string list \<Rightarrow> rule \<Rightarrow> error + bool" where
  "files_match files config = any_pattern_matches files (file_patterns config)"

definition analyze_files_changed :: "(string \<times> rule) list \<Rightarrow> string list \<Rightarrow> error + string option" where
  "analyze_files_changed pats files = first_match (files_match files) pats"

text \<open>\<open>_assess_severity\<close>: the levels of \<open>config['severity']\<close> in their order, then the
  table of defaults by task type.\<close>

fun first_level :: "(string \<times> string list) list \<Rightarrow> string \<Rightarrow> string option" where
  "first_level [] message_lower = None"
| "first_level ((level, words) # rest) message_lower =
     (if list_ex (\<lambda>keyword. substring_in keyword message_lower) words then Some level
      else first_level rest message_lower)"

definition high_severity_types :: "string list" where
  "high_severity_types = [''manual_fix'', ''revert'', ''pipeline_issue'']"

definition medium_severity_types :: "string list" where
  "medium_severity_types = [''manual_deploy'', ''restart'']"

definition default_severity_of :: "string \<Rightarrow> nat list" where
  "default_severity_of task_type =
     (if task_type \<in> set high_severity_types then codes ''HIGH''
      else if task_type \<in> set medium_severity_types then codes ''MEDIUM''
      else codes ''LOW'')"

definition assess_severity ::
  "(string \<times> string list) list \<Rightarrow> string \<Rightarrow> string \<Rightarrow> nat list" where
  "assess_severity lexicon message task_type =
     (case first_level lexicon (lower message) of
        Some level \<Rightarrow> upper level
      | None \<Rightarrow> default_severity_of task_type)"

section \<open>Scanning one repository\<close>

text \<open>A commit as \<open>_parse_git_output\<close> builds it, and an event as \<open>scan_git_history\<close>
  emits it (the keys \<open>date\<close> and \<open>author\<close> of the event are \<open>ev_date\<close> and \<open>ev_author\<close>;
  the severity is a result of \<open>str.upper\<close>, hence a list of code points).\<close>

record commit =
  hash :: string
  message :: string
  date :: string
  author :: string
  files :: "string list"

record toil_event =
  ev_date :: string
  repo_path :: string
  task_type :: string
  description :: string
  severity :: "nat list"
  ev_author :: string
  files_changed :: string

text \<open>\<open>sep.join(xs)\<close>.\<close>

fun join :: "string \<Rightarrow> string list \<Rightarrow> string" where
  "join sep [] = []"
| "join sep [x] = x"
| "join sep (x # y # ys) = x @ sep @ join sep (y # ys)"

text \<open>\<open>str.isspace\<close> on the characters below 256, and \<open>str.strip()\<close>.\<close>

definition is_space :: "char \<Rightarrow> bool" where
  "is_space c =
     (let n = (of_char c :: nat)
      in (9 \<le> n \<and> n \<le> 13) \<or> (28 \<le> n \<and> n \<le> 32) \<or> n = 133 \<or> n = 160)"

definition strip :: "string \<Rightarrow> string" where
  "strip s = rev (dropWhile is_space (rev (dropWhile is_space s)))"

text \<open>\<open>s.split(sep, n)\<close>: at most \<open>n\<close> splits, the rest of the text in the last piece.\<close>

fun split_max :: "char \<Rightarrow> nat \<Rightarrow> string \<Rightarrow> string list" where
  "split_max sep 0 s = [s]"
| "split_max sep (Suc n) [] = [[]]"
| "split_max sep (Suc n) (c # cs) =
     (if c = sep then [] # split_max sep n cs
      else (case split_max sep (Suc n) cs of [] \<Rightarrow> [[c]] | p # ps \<Rightarrow> (c # p) # ps))"

text \<open>
  The loop of \<open>_parse_git_output\<close> over the lines, with its two variables
  \<open>commits\<close> and \<open>current_commit\<close> (\<open>None\<close> for the empty dictionary).
\<close>

fun parse_lines :: "string list \<Rightarrow> commit list \<Rightarrow> commit option \<Rightarrow> commit list" where
  "parse_lines [] commits current_commit =
     (case current_commit of None \<Rightarrow> commits | Some c \<Rightarrow> commits @ [c])"
| "parse_lines (line # rest) commits current_commit =
     (if strip line = [] then
        (case current_commit of
           None \<Rightarrow> parse_lines rest commits None
         | Some c \<Rightarrow> parse_lines rest (commits @ [c]) None)
      else if CHR ''|'' \<in> set line then
        (let parts = split_max (CHR ''|'') 3 line
         in if length parts \<ge> 4 then
              parse_lines rest commits
                (Some \<lparr>hash = parts ! 0, message = parts ! 1, date = parts ! 2,
                       author = parts ! 3, files = []\<rparr>)
            else parse_lines rest commits current_commit)
      else
        (case current_commit of
           None \<Rightarrow> parse_lines rest commits None
         | Some c \<Rightarrow> parse_lines rest commits (Some (c\<lparr>files := files c @ [strip line]\<rparr>))))"

definition parse_git_output :: "string \<Rightarrow> commit list" where
  "parse_git_output output = parse_lines (split_on (CHR 0x0A) output) [] None"

text \<open>
  The body of the loop of \<open>scan_git_history\<close> for one commit: no event, one event, or
  an exception of the classifier. \<open>if detected_type\<close> and
  \<open>file_based_type or detected_type\<close> test truth, and the empty string is false.
\<close>

definition classify_commit :: "config \<Rightarrow> string \<Rightarrow> bool \<Rightarrow> commit \<Rightarrow> error + toil_event option" where
  "classify_commit cfg repo include_file_analysis c =
     (case analyze_commit_message (cfg_patterns cfg) (message c) of
        Inl e \<Rightarrow> Inl e
      | Inr None \<Rightarrow> Inr None
      | Inr (Some detected_type) \<Rightarrow>
          if detected_type = [] then Inr None
          else
            (case (if include_file_analysis \<and> files c \<noteq> []
                   then analyze_files_changed (cfg_patterns cfg) (files c)
                   else Inr None) of
               Inl e \<Rightarrow> Inl e
             | Inr file_based_type \<Rightarrow>
                 (let final_type =
                        (case file_based_type of
                           None \<Rightarrow> detected_type
                         | Some f \<Rightarrow> if f = [] then detected_type else f)
                  in Inr (Some \<lparr>ev_date = date c,
                                 repo_path = repo,
                                 task_type = final_type,
                                 description = message c,
                                 severity = assess_severity (cfg_severity cfg) (message c) final_type,
                                 ev_author = author c,
                                 files_changed = join '','' (files c)\<rparr>))))"

fun scan_commits :: "config \<Rightarrow> string \<Rightarrow> bool \<Rightarrow> commit list \<Rightarrow> error + toil_event list" where
  "scan_commits cfg repo include_file_analysis [] = Inr []"
| "scan_commits cfg repo include_file_analysis (c # cs) =
     (case classify_commit cfg repo include_file_analysis c of
        Inl e \<Rightarrow> Inl e
      | Inr ev \<Rightarrow>
          (case scan_commits cfg repo include_file_analysis cs of
             Inl e \<Rightarrow> Inl e
           | Inr evs \<Rightarrow> Inr ((case ev of None \<Rightarrow> [] | Some x \<Rightarrow> [x]) @ evs)))"

text \<open>
  What the program asks of the world outside, as functions of the arguments it passes:
  \<^item> \<open>resolve\<close>: \<open>Path(p).resolve()\<close>, as text;
  \<^item> \<open>git_log\<close>: the \<open>git log --since=... --name-only\<close> subprocess run in a directory for a
    number of days; it yields its output, or fails (a return code other than 0, or a
    directory that cannot be entered);
  \<^item> \<open>git_last_commit\<close>: the \<open>git log -1 --format=%cd\<close> subprocess run in a directory;
  \<^item> \<open>md5_hexdigest\<close>: \<open>hashlib.md5(text.encode()).hexdigest()\<close>;
  \<^item> \<open>json_dump\<close> and \<open>json_load\<close>: the text \<open>json.dump\<close> writes for a value, and the
    value \<open>json.load\<close> reads from a text, \<open>None\<close> when it raises.

  A value read from a cache file is Python's \<open>None\<close> (the text \<open>null\<close>), a list of
  events, or some other JSON value, kept as its text.
\<close>

datatype pyvalue = PyNone | Events "toil_event list" | Other string

record env =
  resolve :: "string \<Rightarrow> string"
  git_log :: "string \<Rightarrow> int \<Rightarrow> error + string"
  git_last_commit :: "string \<Rightarrow> error + string"
  md5_hexdigest :: "string \<Rightarrow> string"
  json_dump :: "pyvalue \<Rightarrow> string"
  json_load :: "string \<Rightarrow> pyvalue option"

text \<open>\<open>scan_git_history\<close>: every exception raised inside is caught, and the result is
  then the empty list.\<close>

definition scan_git_history :: "config \<Rightarrow> env \<Rightarrow> string \<Rightarrow> int \<Rightarrow> bool \<Rightarrow> toil_event list" where
  "scan_git_history cfg g repo days_back include_file_analysis =
     (let repo_path = resolve g repo
      in case git_log g repo_path days_back of
           Inl e \<Rightarrow> []
         | Inr output \<Rightarrow>
             (case scan_commits cfg repo_path include_file_analysis (parse_git_output output) of
                Inl e \<Rightarrow> []
              | Inr toil_found \<Rightarrow> toil_found))"

section \<open>Scanning several repositories\<close>

text \<open>
  \<open>scan_multiple_repos\<close> submits one \<open>scan_git_history\<close> per path to a pool of threads
  and stores each result under its path as the futures complete. The order in which
  they complete is not determined; it is the argument \<open>completed\<close>, some arrangement
  of the submitted paths. \<open>scan_git_history\<close> catches its own exceptions, so
  \<open>future.result()\<close> yields a list for every path.
\<close>

definition scan_multiple_repos ::
  "config \<Rightarrow> env \<Rightarrow> string list \<Rightarrow> int \<Rightarrow> (string \<rightharpoonup> toil_event list)" where
  "scan_multiple_repos cfg e completed days_back =
     fold (\<lambda>repo results. results(repo \<mapsto> scan_git_history cfg e repo days_back True))
       completed Map.empty"

section \<open>The result cache\<close>

text \<open>The decimal text of an integer, as an f-string writes it.\<close>

fun digits :: "nat \<Rightarrow> string" where
  "digits n =
     (if n < 10 then [char_of (48 + n)]
      else digits (n div 10) @ [char_of (48 + n mod 10)])"

definition str_int :: "int \<Rightarrow> string" where
  "str_int i = (if i < 0 then CHR ''-'' # digits (nat (- i)) else digits (nat i))"

text \<open>\<open>ToilCache._get_last_commit_date\<close>: the stripped output, or the empty text when
  the subprocess fails.\<close>

definition get_last_commit_date :: "env \<Rightarrow> string \<Rightarrow> string" where
  "get_last_commit_date e repo =
     (case git_last_commit e repo of Inl err \<Rightarrow> [] | Inr out \<Rightarrow> strip out)"

definition key_data :: "env \<Rightarrow> string \<Rightarrow> int \<Rightarrow> string" where
  "key_data e repo days_back =
     resolve e repo @ '':'' @ str_int days_back @ '':'' @ get_last_commit_date e repo"

definition get_cache_key :: "env \<Rightarrow> string \<Rightarrow> int \<Rightarrow> string" where
  "get_cache_key e repo days_back = md5_hexdigest e (key_data e repo days_back)"

text \<open>
  A file of the cache directory: its modification time, whether it can be opened for
  reading, whether \<open>unlink\<close> can remove it (it cannot from a directory the caller may
  not write), and its text. The directory tells for a cache key what a \<open>stat()\<close> of
  \<open><key>.json\<close> finds: no such file, an error other than that (a directory that the
  caller may not search), or the file. The state a cached scan works on is the directory
  and the list of the scans of git history made so far.
\<close>

record cache_file =
  st_mtime :: real
  readable :: bool
  removable :: bool
  content :: string

datatype lookup = Absent | Denied | File cache_file

type_synonym cache_dir = "string \<Rightarrow> lookup"

record scan_state =
  cache_files :: cache_dir
  history_scans :: "(string \<times> int) list"

text \<open>
  \<open>cache_file.unlink()\<close> followed by \<open>return None\<close>, as \<open>ToilCache.get\<close> does for an
  expired and for a corrupted file. No \<open>unlink\<close> of \<open>get\<close> is guarded (the second
  stands inside the \<open>except\<close> clause), so its exception leaves \<open>get\<close>.
\<close>

definition unlink_and_miss :: "cache_dir \<Rightarrow> string \<Rightarrow> cache_file \<Rightarrow> (error + pyvalue) \<times> cache_dir" where
  "unlink_and_miss dir cache_key f =
     (if removable f then (Inr PyNone, dir(cache_key := Absent))
      else (Inl (OSError ''Permission denied''), dir))"

text \<open>
  \<open>ToilCache.get\<close> at time \<open>now\<close>: what it returns (\<open>PyNone\<close> is Python's \<open>None\<close>) or
  raises, and the directory afterwards. \<open>exists()\<close> is a \<open>stat()\<close> that answers
  \<open>False\<close> when there is no such file and lets every other error pass; the
  \<open>stat()\<close> that follows finds what \<open>exists()\<close> has found.
\<close>

definition cache_get ::
  "env \<Rightarrow> real \<Rightarrow> real \<Rightarrow> cache_dir \<Rightarrow> string \<Rightarrow> int \<Rightarrow> (error + pyvalue) \<times> cache_dir" where
  "cache_get e ttl now dir repo days_back =
     (let cache_key = get_cache_key e repo days_back
      in case dir cache_key of
           Absent \<Rightarrow> (Inr PyNone, dir)
         | Denied \<Rightarrow> (Inl (OSError ''Permission denied''), dir)
         | File f \<Rightarrow>
             if now - st_mtime f > ttl then unlink_and_miss dir cache_key f
             else if readable f then
               (case json_load e (content f) of
                  Some data \<Rightarrow> (Inr data, dir)
                | None \<Rightarrow> unlink_and_miss dir cache_key f)
             else unlink_and_miss dir cache_key f)"

text \<open>
  \<open>ToilCache.set\<close> at time \<open>now\<close>; \<open>write_ok\<close> tells whether the file can be
  written (a failure is caught and printed). Writing over a file leaves its
  permissions as they are; a new file can be read and removed by the caller, who has
  just created it.
\<close>

definition cache_set ::
  "env \<Rightarrow> real \<Rightarrow> bool \<Rightarrow> cache_dir \<Rightarrow> string \<Rightarrow> int \<Rightarrow> toil_event list \<Rightarrow> cache_dir" where
  "cache_set e now write_ok dir repo days_back data =
     (let cache_key = get_cache_key e repo days_back
      in if write_ok
         then dir(cache_key := File
                \<lparr>st_mtime = now,
                 readable = (case dir cache_key of File old \<Rightarrow> readable old | _ \<Rightarrow> True),
                 removable = (case dir cache_key of File old \<Rightarrow> removable old | _ \<Rightarrow> True),
                 content = json_dump e (Events data)\<rparr>)
         else dir)"

text \<open>\<open>ToilPerformanceOptimizer.scan_with_caching\<close>. An exception of \<open>get\<close> is not
  caught; \<open>cached_result is not None\<close> decides between the cache and a scan.\<close>

definition scan_with_caching ::
  "config \<Rightarrow> env \<Rightarrow> real \<Rightarrow> real \<Rightarrow> bool \<Rightarrow> scan_state \<Rightarrow> string \<Rightarrow> int
     \<Rightarrow> (error + pyvalue) \<times> scan_state" where
  "scan_with_caching cfg e ttl now write_ok st repo days_back =
     (case cache_get e ttl now (cache_files st) repo days_back of
        (Inl err, dir) \<Rightarrow> (Inl err, st\<lparr>cache_files := dir\<rparr>)
      | (Inr cached_result, dir) \<Rightarrow>
          if cached_result \<noteq> PyNone then (Inr cached_result, st\<lparr>cache_files := dir\<rparr>)
          else
            (let result = scan_git_history cfg e repo days_back True;
                 scans = history_scans st @ [(repo, days_back)]
             in (Inr (Events result),
                 \<lparr>cache_files = cache_set e now write_ok dir repo days_back result,
                  history_scans = scans\<rparr>)))"

section \<open>Properties of the classifier\<close>

lemma first_match_skip:
  "\<forall>(t, c) \<in> set pre. test c = Inr False \<Longrightarrow>
     first_match test (pre @ rest) = first_match test rest"
  by (induction pre) auto

lemma first_match_hit:
  "test c = Inr True \<Longrightarrow> first_match test ((t, c) # rest) = Inr (Some t)"
  by simp

lemma first_match_drop:
  "test c = Inr False \<Longrightarrow>
     first_match test (pre @ (t, c) # post) = first_match test (pre @ post)"
  by (induction pre) (auto split: sum.splits)

lemma first_match_none:
  "\<forall>(t, c) \<in> set pats. test c = Inr False \<Longrightarrow> first_match test pats = Inr None"
  using first_match_skip [of pats test "[]"] by simp

lemma rule_matches_true:
  "keyword_hit r m \<Longrightarrow> confirmed r m = Inr True \<Longrightarrow> \<not> excluded r m \<Longrightarrow>
     rule_matches m r = Inr True"
  by (simp add: rule_matches_def)

lemma rule_matches_vetoed:
  "keyword_hit r m \<Longrightarrow> confirmed r m = Inr True \<Longrightarrow> excluded r m \<Longrightarrow>
     rule_matches m r = Inr False"
  by (simp add: rule_matches_def)

lemma rule_matches_fails:
  "\<not> keyword_hit r m \<or> confirmed r m = Inr False \<or> (confirmed r m = Inr True \<and> excluded r m)
     \<Longrightarrow> rule_matches m r = Inr False"
  by (auto simp: rule_matches_def)

text \<open>
  C1 (rule precedence). The rules are walked in the order of the configuration and the
  first rule that satisfies the three conditions (a keyword is a substring of the
  lower-cased message, a confirm pattern is found or there is none, no exclude term is
  a substring) gives the category. So when the rule \<open>r1\<close> and a later rule \<open>r2\<close> both
  satisfy the three conditions, and every rule before \<open>r1\<close> fails one of them (no
  keyword is in the message, or no confirm pattern is found, or a confirm pattern is
  found and an exclude term is in the message), the result is the category of \<open>r1\<close>,
  whatever stands between and after the two.
\<close>

theorem rule_precedence:
  assumes "\<forall>(t, r) \<in> set pre.
             \<not> keyword_hit r (lower msg)
             \<or> confirmed r (lower msg) = Inr False
             \<or> (confirmed r (lower msg) = Inr True \<and> excluded r (lower msg))"
    and "keyword_hit r1 (lower msg)"
    and "confirmed r1 (lower msg) = Inr True"
    and "\<not> excluded r1 (lower msg)"
    and "keyword_hit r2 (lower msg)"
    and "confirmed r2 (lower msg) = Inr True"
    and "\<not> excluded r2 (lower msg)"
  shows "analyze_commit_message (pre @ (t1, r1) # mid @ (t2, r2) # post) msg = Inr (Some t1)"
proof -
  have before: "\<forall>(t, r) \<in> set pre. rule_matches (lower msg) r = Inr False"
    using assms(1) rule_matches_fails by fastforce
  have "rule_matches (lower msg) r1 = Inr True"
    using assms(2-4) by (rule rule_matches_true)
  then have "first_match (rule_matches (lower msg)) ((t1, r1) # mid @ (t2, r2) # post)
               = Inr (Some t1)"
    by (rule first_match_hit)
  with before show ?thesis
    unfolding analyze_commit_message_def by (simp add: first_match_skip)
qed

text \<open>
  Three messages with the default rules. Each satisfies the three conditions of
  \<open>manual_fix\<close> (the second rule) and of \<open>env_setup\<close> (the fourth), with \<open>revert\<close>
  between them, and fails one condition of \<open>manual_deploy\<close> (the first rule): the first
  message has none of its keywords, though one of its confirm patterns is found; the
  second has the keyword \<open>deploy\<close> and none of its confirm patterns; the third has
  keyword and confirm pattern and the exclude term \<open>staging\<close>. The category is
  \<open>manual_fix\<close> each time.
\<close>

theorem rule_precedence_witness:
  "\<not> keyword_hit (snd (default_patterns ! 0))
        (lower ''Emergency fix for release v1.2 config change'')
   \<and> confirmed (snd (default_patterns ! 0))
        (lower ''Emergency fix for release v1.2 config change'') = Inr True
   \<and> analyze_commit_message default_patterns ''Emergency fix for release v1.2 config change''
       = Inr (Some ''manual_fix'')
   \<and> keyword_hit (snd (default_patterns ! 0)) (lower ''Emergency fix: deploy config change'')
   \<and> confirmed (snd (default_patterns ! 0)) (lower ''Emergency fix: deploy config change'')
       = Inr False
   \<and> analyze_commit_message default_patterns ''Emergency fix: deploy config change''
       = Inr (Some ''manual_fix'')
   \<and> keyword_hit (snd (default_patterns ! 0))
        (lower ''Emergency fix: deploy to production staging, config change'')
   \<and> confirmed (snd (default_patterns ! 0))
        (lower ''Emergency fix: deploy to production staging, config change'') = Inr True
   \<and> excluded (snd (default_patterns ! 0))
        (lower ''Emergency fix: deploy to production staging, config change'')
   \<and> analyze_commit_message default_patterns
        ''Emergency fix: deploy to production staging, config change''
       = Inr (Some ''manual_fix'')"
proof -
  let ?m1 = "''Emergency fix for release v1.2 config change''"
  let ?m2 = "''Emergency fix: deploy config change''"
  let ?m3 = "''Emergency fix: deploy to production staging, config change''"
  let ?r0 = "snd (default_patterns ! 0)"
  let ?r1 = "snd (default_patterns ! 1)"
  let ?r2 = "snd (default_patterns ! 2)"
  let ?r3 = "snd (default_patterns ! 3)"
  have split: "default_patterns =
      [(''manual_deploy'', ?r0)] @ (''manual_fix'', ?r1) # [(''revert'', ?r2)]
        @ (''env_setup'', ?r3) # drop 4 default_patterns"
    by (simp add: default_patterns_def)
  have k1: "\<not> keyword_hit ?r0 (lower ?m1)" and c1: "confirmed ?r0 (lower ?m1) = Inr True"
    by code_simp+
  have k2: "keyword_hit ?r0 (lower ?m2)" and c2: "confirmed ?r0 (lower ?m2) = Inr False"
    by code_simp+
  have k3: "keyword_hit ?r0 (lower ?m3)" and c3: "confirmed ?r0 (lower ?m3) = Inr True"
    and x3: "excluded ?r0 (lower ?m3)"
    by code_simp+
  have p1: "\<forall>(t, r) \<in> set [(''manual_deploy'', ?r0)].
             \<not> keyword_hit r (lower ?m1) \<or> confirmed r (lower ?m1) = Inr False
             \<or> (confirmed r (lower ?m1) = Inr True \<and> excluded r (lower ?m1))"
    using k1 by simp
  have p2: "\<forall>(t, r) \<in> set [(''manual_deploy'', ?r0)].
             \<not> keyword_hit r (lower ?m2) \<or> confirmed r (lower ?m2) = Inr False
             \<or> (confirmed r (lower ?m2) = Inr True \<and> excluded r (lower ?m2))"
    using c2 by simp
  have p3: "\<forall>(t, r) \<in> set [(''manual_deploy'', ?r0)].
             \<not> keyword_hit r (lower ?m3) \<or> confirmed r (lower ?m3) = Inr False
             \<or> (confirmed r (lower ?m3) = Inr True \<and> excluded r (lower ?m3))"
    using c3 x3 by simp
  have f1: "keyword_hit ?r1 (lower ?m1)" "confirmed ?r1 (lower ?m1) = Inr True"
      "\<not> excluded ?r1 (lower ?m1)"
    by code_simp+
  have e1: "keyword_hit ?r3 (lower ?m1)" "confirmed ?r3 (lower ?m1) = Inr True"
      "\<not> excluded ?r3 (lower ?m1)"
    by code_simp+
  have f2: "keyword_hit ?r1 (lower ?m2)" "confirmed ?r1 (lower ?m2) = Inr True"
      "\<not> excluded ?r1 (lower ?m2)"
    by code_simp+
  have e2: "keyword_hit ?r3 (lower ?m2)" "confirmed ?r3 (lower ?m2) = Inr True"
      "\<not> excluded ?r3 (lower ?m2)"
    by code_simp+
  have f3: "keyword_hit ?r1 (lower ?m3)" "confirmed ?r1 (lower ?m3) = Inr True"
      "\<not> excluded ?r1 (lower ?m3)"
    by code_simp+
  have e3: "keyword_hit ?r3 (lower ?m3)" "confirmed ?r3 (lower ?m3) = Inr True"
      "\<not> excluded ?r3 (lower ?m3)"
    by code_simp+
  have w1: "analyze_commit_message default_patterns ?m1 = Inr (Some ''manual_fix'')"
    using rule_precedence [OF p1 f1 e1, of "''manual_fix''" "[(''revert'', ?r2)]" "''env_setup''"
        "drop 4 default_patterns"] split
    by simp
  have w2: "analyze_commit_message default_patterns ?m2 = Inr (Some ''manual_fix'')"
    using rule_precedence [OF p2 f2 e2, of "''manual_fix''" "[(''revert'', ?r2)]" "''env_setup''"
        "drop 4 default_patterns"] split
    by simp
  have w3: "analyze_commit_message default_patterns ?m3 = Inr (Some ''manual_fix'')"
    using rule_precedence [OF p3 f3 e3, of "''manual_fix''" "[(''revert'', ?r2)]" "''env_setup''"
        "drop 4 default_patterns"] split
    by simp
  from k1 c1 w1 k2 c2 w2 k3 c3 x3 w3 show ?thesis
    by (intro conjI)
qed

text \<open>
  C3 (exclude-term veto), as the claim states it: a message that contains a keyword of a
  rule, satisfies a confirm pattern of it and contains one of its exclude terms would
  classify as empty. The code goes on to the next rule instead. With the default rules
  the message below is vetoed for \<open>manual_deploy\<close> by the term \<open>staging\<close>, and
  classifies as \<open>manual_fix\<close>.
\<close>

theorem exclude_veto_counterexample:
  "keyword_hit (snd (default_patterns ! 0)) (lower ''Emergency fix: deploy to production staging'')
   \<and> confirmed (snd (default_patterns ! 0)) (lower ''Emergency fix: deploy to production staging'')
       = Inr True
   \<and> excluded (snd (default_patterns ! 0)) (lower ''Emergency fix: deploy to production staging'')
   \<and> analyze_commit_message default_patterns ''Emergency fix: deploy to production staging''
       = Inr (Some ''manual_fix'')"
  by code_simp

text \<open>
  C3, amended: a rule whose keyword and confirm pattern hit but one of whose exclude
  terms is in the message is passed over, wherever it stands: the classification is the
  one the other rules give in their order, so it is empty only when none of them
  satisfies the three conditions.
\<close>

theorem exclude_veto_skips_rule:
  assumes "keyword_hit r (lower msg)"
    and "confirmed r (lower msg) = Inr True"
    and "excluded r (lower msg)"
  shows "analyze_commit_message (pre @ (t, r) # post) msg
           = analyze_commit_message (pre @ post) msg"
  unfolding analyze_commit_message_def
  using assms by (intro first_match_drop rule_matches_vetoed)

theorem exclude_veto_skips_rule_witness:
  "analyze_commit_message default_patterns ''Emergency fix: deploy to production staging''
     = analyze_commit_message (tl default_patterns) ''Emergency fix: deploy to production staging''
   \<and> analyze_commit_message default_patterns ''deploy to production staging'' = Inr None"
proof -
  let ?m = "''Emergency fix: deploy to production staging''"
  let ?m2 = "''deploy to production staging''"
  let ?r = "snd (default_patterns ! 0)"
  have k: "keyword_hit ?r (lower ?m)" by code_simp
  have c: "confirmed ?r (lower ?m) = Inr True" by code_simp
  have x: "excluded ?r (lower ?m)" by code_simp
  have k2: "keyword_hit ?r (lower ?m2)" by code_simp
  have c2: "confirmed ?r (lower ?m2) = Inr True" by code_simp
  have x2: "excluded ?r (lower ?m2)" by code_simp
  have d: "default_patterns = [] @ (''manual_deploy'', ?r) # tl default_patterns"
    by (simp add: default_patterns_def)
  have n: "analyze_commit_message ([] @ tl default_patterns) ?m2 = Inr None" by code_simp
  show ?thesis
    using exclude_veto_skips_rule [OF k c x, of "[]" "''manual_deploy''" "tl default_patterns"]
      exclude_veto_skips_rule [OF k2 c2 x2, of "[]" "''manual_deploy''" "tl default_patterns"] d n
    by simp
qed

section \<open>Severity\<close>

lemma first_level_skip:
  "\<forall>(l, ws) \<in> set pre. \<forall>w \<in> set ws. \<not> substring_in w m \<Longrightarrow>
     first_level (pre @ rest) m = first_level rest m"
  by (induction pre) (auto simp: list_ex_iff)

lemma first_level_none:
  "\<forall>(l, ws) \<in> set lexicon. \<forall>w \<in> set ws. \<not> substring_in w m \<Longrightarrow>
     first_level lexicon m = None"
  using first_level_skip [of lexicon m "[]"] by simp

lemma upper_levels:
  "upper ''high'' = codes ''HIGH''" "upper ''medium'' = codes ''MEDIUM''"
  "upper ''low'' = codes ''LOW''"
  by code_simp+

text \<open>
  C4 (severity assessment), as the claim states it: the levels would be checked HIGH,
  then MEDIUM, then LOW, so that a message with a HIGH and a LOW trigger word is HIGH.
  The code checks the levels in the order in which the lexicon of the configuration
  lists them. With a lexicon that lists \<open>low\<close> before \<open>high\<close>, a message that contains
  a word of each is assessed LOW.
\<close>

theorem severity_order_counterexample:
  "substring_in ''emergency'' (lower ''emergency update'')
   \<and> substring_in ''update'' (lower ''emergency update'')
   \<and> assess_severity [(''low'', [''update'']), (''high'', [''emergency''])]
        ''emergency update'' ''manual_fix'' = codes ''LOW''"
  by code_simp

text \<open>
  C4, amended: the levels are checked in the order of the lexicon, and the first level
  one of whose words is a substring of the lower-cased message is returned, in upper
  case (as \<open>str.upper\<close> gives it, whatever the name of the level); when no word hits, the result is the default of the task type (HIGH for
  \<open>manual_fix\<close>, \<open>revert\<close> and \<open>pipeline_issue\<close>, MEDIUM for \<open>manual_deploy\<close> and
  \<open>restart\<close>, LOW for every other). With the default lexicon the order is HIGH, MEDIUM,
  LOW: a message with a HIGH word is HIGH whatever else it contains, one with a MEDIUM
  word and no HIGH word is MEDIUM, one with only a LOW word is LOW.
\<close>

theorem severity_assessment:
  "((\<forall>(l, ws) \<in> set pre. \<forall>w \<in> set ws. \<not> substring_in w (lower msg))
      \<and> (\<exists>w \<in> set ws. substring_in w (lower msg))
      \<longrightarrow> assess_severity (pre @ (level, ws) # post) msg t = upper level)
   \<and> ((\<forall>(l, ws) \<in> set lexicon. \<forall>w \<in> set ws. \<not> substring_in w (lower msg))
      \<longrightarrow> assess_severity lexicon msg t =
            (if t \<in> {''manual_fix'', ''revert'', ''pipeline_issue''} then codes ''HIGH''
             else if t \<in> {''manual_deploy'', ''restart''} then codes ''MEDIUM''
             else codes ''LOW''))
   \<and> ((\<exists>w \<in> {''emergency'', ''critical'', ''urgent'', ''outage'', ''downtime'', ''security''}.
          substring_in w (lower msg))
      \<longrightarrow> assess_severity default_severity msg t = codes ''HIGH'')
   \<and> (\<not> (\<exists>w \<in> {''emergency'', ''critical'', ''urgent'', ''outage'', ''downtime'', ''security''}.
            substring_in w (lower msg))
      \<and> (\<exists>w \<in> {''hotfix'', ''production'', ''manual'', ''ci'', ''pipeline''}.
            substring_in w (lower msg))
      \<longrightarrow> assess_severity default_severity msg t = codes ''MEDIUM'')
   \<and> (\<not> (\<exists>w \<in> {''emergency'', ''critical'', ''urgent'', ''outage'', ''downtime'', ''security''}.
            substring_in w (lower msg))
      \<and> \<not> (\<exists>w \<in> {''hotfix'', ''production'', ''manual'', ''ci'', ''pipeline''}.
            substring_in w (lower msg))
      \<and> (\<exists>w \<in> {''update'', ''config'', ''restart'', ''env''}. substring_in w (lower msg))
      \<longrightarrow> assess_severity default_severity msg t = codes ''LOW'')"
proof -
  have ordered: "assess_severity (pre @ (level, ws) # post) msg t = upper level"
    if "(\<forall>(l, ws) \<in> set pre. \<forall>w \<in> set ws. \<not> substring_in w (lower msg))
          \<and> (\<exists>w \<in> set ws. substring_in w (lower msg))"
    using that by (simp add: assess_severity_def first_level_skip list_ex_iff)
  have fallback: "assess_severity lexicon msg t =
            (if t \<in> {''manual_fix'', ''revert'', ''pipeline_issue''} then codes ''HIGH''
             else if t \<in> {''manual_deploy'', ''restart''} then codes ''MEDIUM''
             else codes ''LOW'')"
    if "\<forall>(l, ws) \<in> set lexicon. \<forall>w \<in> set ws. \<not> substring_in w (lower msg)"
    using that
    by (simp add: assess_severity_def first_level_none default_severity_of_def
        high_severity_types_def medium_severity_types_def)
  have high: "assess_severity default_severity msg t = codes ''HIGH''"
    if "\<exists>w \<in> {''emergency'', ''critical'', ''urgent'', ''outage'', ''downtime'', ''security''}.
          substring_in w (lower msg)"
    using that by (simp add: assess_severity_def default_severity_def upper_levels)
  have medium: "assess_severity default_severity msg t = codes ''MEDIUM''"
    if "\<not> (\<exists>w \<in> {''emergency'', ''critical'', ''urgent'', ''outage'', ''downtime'', ''security''}.
            substring_in w (lower msg))
      \<and> (\<exists>w \<in> {''hotfix'', ''production'', ''manual'', ''ci'', ''pipeline''}.
            substring_in w (lower msg))"
    using that by (simp add: assess_severity_def default_severity_def upper_levels)
  have low: "assess_severity default_severity msg t = codes ''LOW''"
    if "\<not> (\<exists>w \<in> {''emergency'', ''critical'', ''urgent'', ''outage'', ''downtime'', ''security''}.
            substring_in w (lower msg))
      \<and> \<not> (\<exists>w \<in> {''hotfix'', ''production'', ''manual'', ''ci'', ''pipeline''}.
            substring_in w (lower msg))
      \<and> (\<exists>w \<in> {''update'', ''config'', ''restart'', ''env''}. substring_in w (lower msg))"
    using that by (simp add: assess_severity_def default_severity_def upper_levels)
  from ordered fallback high medium low show ?thesis
    by (intro conjI impI)
qed

text \<open>
  Instances: a lexicon that lists \<open>low\<close> before \<open>high\<close> on a message with only the
  \<open>high\<close> word; a lexicon whose one level has a name with a sharp s, whose upper case
  has one letter more; messages without any word of the default lexicon; and messages
  with a HIGH and a LOW word, a MEDIUM and a LOW word, and a LOW word only.
\<close>

theorem severity_assessment_witness:
  "assess_severity ([(''low'', [''update''])] @ (''high'', [''emergency'']) # [])
       ''Emergency restart'' ''restart'' = codes ''HIGH''
   \<and> assess_severity
        ([] @ ([CHR ''s'', CHR ''t'', CHR ''r'', CHR ''a'', CHR 0xDF, CHR ''e''], [''outage'']) # [])
        ''Outage in the west'' ''restart'' = codes ''STRASSE''
   \<and> assess_severity default_severity ''Revert abc1234'' ''revert'' = codes ''HIGH''
   \<and> assess_severity default_severity ''Bump version'' ''kubernetes'' = codes ''LOW''
   \<and> assess_severity default_severity ''Emergency update'' ''env_setup'' = codes ''HIGH''
   \<and> assess_severity default_severity ''Hotfix for config'' ''env_setup'' = codes ''MEDIUM''
   \<and> assess_severity default_severity ''Update readme'' ''manual_fix'' = codes ''LOW''"
proof -
  let ?strasse = "[CHR ''s'', CHR ''t'', CHR ''r'', CHR ''a'', CHR 0xDF, CHR ''e'']"
  have a: "(\<forall>(l, ws) \<in> set [(''low'', [''update''])]. \<forall>w \<in> set ws.
              \<not> substring_in w (lower ''Emergency restart''))
           \<and> (\<exists>w \<in> set [''emergency'']. substring_in w (lower ''Emergency restart''))"
    by code_simp
  have s: "(\<forall>(l, ws) \<in> set []. \<forall>w \<in> set ws. \<not> substring_in w (lower ''Outage in the west''))
           \<and> (\<exists>w \<in> set [''outage'']. substring_in w (lower ''Outage in the west''))"
    by code_simp
  have b: "\<forall>(l, ws) \<in> set default_severity. \<forall>w \<in> set ws.
              \<not> substring_in w (lower ''Revert abc1234'')"
    by code_simp
  have b': "\<forall>(l, ws) \<in> set default_severity. \<forall>w \<in> set ws.
              \<not> substring_in w (lower ''Bump version'')"
    by code_simp
  have c: "\<exists>w \<in> {''emergency'', ''critical'', ''urgent'', ''outage'', ''downtime'', ''security''}.
             substring_in w (lower ''Emergency update'')"
    by code_simp
  have d: "\<not> (\<exists>w \<in> {''emergency'', ''critical'', ''urgent'', ''outage'', ''downtime'', ''security''}.
            substring_in w (lower ''Hotfix for config''))
      \<and> (\<exists>w \<in> {''hotfix'', ''production'', ''manual'', ''ci'', ''pipeline''}.
            substring_in w (lower ''Hotfix for config''))"
    by code_simp
  have e: "\<not> (\<exists>w \<in> {''emergency'', ''critical'', ''urgent'', ''outage'', ''downtime'', ''security''}.
            substring_in w (lower ''Update readme''))
      \<and> \<not> (\<exists>w \<in> {''hotfix'', ''production'', ''manual'', ''ci'', ''pipeline''}.
            substring_in w (lower ''Update readme''))
      \<and> (\<exists>w \<in> {''update'', ''config'', ''restart'', ''env''}.
            substring_in w (lower ''Update readme''))"
    by code_simp
  have u: "upper ''high'' = codes ''HIGH''"
    by code_simp
  have us: "upper ?strasse = codes ''STRASSE''"
    by code_simp
  note ordered = severity_assessment [where pre = "[(''low'', [''update''])]"
        and ws = "[''emergency'']" and level = "''high''" and post = "[]"
        and msg = "''Emergency restart''" and t = "''restart''", THEN conjunct1, THEN mp, OF a]
  have w1: "assess_severity ([(''low'', [''update''])] @ (''high'', [''emergency'']) # [])
       ''Emergency restart'' ''restart'' = codes ''HIGH''"
    using ordered by (simp only: u)
  note sharp = severity_assessment [where pre = "[]" and ws = "[''outage'']"
        and level = ?strasse and post = "[]" and msg = "''Outage in the west''"
        and t = "''restart''", THEN conjunct1, THEN mp, OF s]
  have w2: "assess_severity ([] @ (?strasse, [''outage'']) # []) ''Outage in the west''
          ''restart'' = codes ''STRASSE''"
    using sharp by (simp only: us)
  note revert = severity_assessment [where lexicon = default_severity
        and msg = "''Revert abc1234''" and t = "''revert''",
        THEN conjunct2, THEN conjunct1, THEN mp, OF b]
  have w3: "assess_severity default_severity ''Revert abc1234'' ''revert'' = codes ''HIGH''"
    using revert by simp
  note bump = severity_assessment [where lexicon = default_severity
        and msg = "''Bump version''" and t = "''kubernetes''",
        THEN conjunct2, THEN conjunct1, THEN mp, OF b']
  have w4: "assess_severity default_severity ''Bump version'' ''kubernetes'' = codes ''LOW''"
    using bump by simp
  note w5 = severity_assessment [where msg = "''Emergency update''" and t = "''env_setup''",
        THEN conjunct2, THEN conjunct2, THEN conjunct1, THEN mp, OF c]
  note w6 = severity_assessment [where msg = "''Hotfix for config''" and t = "''env_setup''",
        THEN conjunct2, THEN conjunct2, THEN conjunct2, THEN conjunct1, THEN mp, OF d]
  note w7 = severity_assessment [where msg = "''Update readme''" and t = "''manual_fix''",
        THEN conjunct2, THEN conjunct2, THEN conjunct2, THEN conjunct2, THEN mp, OF e]
  from w1 w2 w3 w4 w5 w6 w7 show ?thesis
    by (intro conjI)
qed

section \<open>The worked example\<close>

lemma update_config_file_no_category:
  "analyze_commit_message default_patterns ''update config file'' = Inr None"
  by code_simp

text \<open>
  C5 (worked example), as the claim states it: with the default rules the commit
  \<open>update config file\<close> with the changed file \<open>README.md\<close> would classify as \<open>env_setup\<close>
  with severity LOW. In the code the keyword \<open>config\<close> of \<open>env_setup\<close> hits, none of the
  four confirm patterns of \<open>env_setup\<close> is found in the message, and no keyword of another
  rule hits: there is no category and no event.
\<close>

theorem worked_example_counterexample:
  "keyword_hit (snd (default_patterns ! 3)) (lower ''update config file'')
   \<and> confirmed (snd (default_patterns ! 3)) (lower ''update config file'') = Inr False
   \<and> analyze_commit_message default_patterns ''update config file'' = Inr None
   \<and> classify_commit default_config ''/repo'' True
        \<lparr>hash = ''abc1234'', message = ''update config file'', date = ''2024-01-01'',
         author = ''dev'', files = [''README.md'']\<rparr> = Inr None"
  by code_simp

text \<open>
  C5, amended: with the default rules and lexicon, a commit with the message
  \<open>update config file\<close> and the changed file \<open>README.md\<close> yields no event, whatever its
  other fields; the severity of that message, assessed for \<open>env_setup\<close>, is LOW.
\<close>

theorem worked_example_no_event:
  "classify_commit default_config repo incl
        \<lparr>hash = h, message = ''update config file'', date = d, author = a,
         files = [''README.md'']\<rparr>
     = Inr None
   \<and> scan_commits default_config repo incl
        [\<lparr>hash = h, message = ''update config file'', date = d, author = a,
          files = [''README.md'']\<rparr>]
     = Inr []
   \<and> assess_severity default_severity ''update config file'' ''env_setup'' = codes ''LOW''"
proof -
  have "assess_severity default_severity ''update config file'' ''env_setup'' = codes ''LOW''"
    by code_simp
  then show ?thesis
    by (simp add: classify_commit_def default_config_def update_config_file_no_category)
qed

section \<open>Loading the configuration\<close>

text \<open>
  C10 (shallow merge of the configuration). A user file (a mapping) with the key \<open>patterns\<close> replaces
  the whole default section of rules, one with the key \<open>severity\<close> the whole default
  lexicon; a key the file does not have keeps its default section; without a file the
  configuration is the default one.
\<close>

theorem shallow_merge:
  "load_config (Some (Inr (Mapping \<lparr>usr_patterns = Some p, usr_severity = None\<rparr>)))
     = Inr \<lparr>cfg_patterns = p, cfg_severity = default_severity\<rparr>
   \<and> load_config (Some (Inr (Mapping \<lparr>usr_patterns = None, usr_severity = Some s\<rparr>)))
     = Inr \<lparr>cfg_patterns = default_patterns, cfg_severity = s\<rparr>
   \<and> load_config (Some (Inr (Mapping \<lparr>usr_patterns = Some p, usr_severity = Some s\<rparr>)))
     = Inr \<lparr>cfg_patterns = p, cfg_severity = s\<rparr>
   \<and> load_config (Some (Inr (Mapping \<lparr>usr_patterns = None, usr_severity = None\<rparr>)))
     = Inr default_config
   \<and> load_config None = Inr default_config"
  by (simp add: load_config_def default_config_def)

text \<open>
  A user file whose \<open>patterns\<close> section has the one category \<open>manual_deploy\<close>, with
  keywords only: the loaded rules are that one rule as given (the default confirm
  patterns, file patterns and exclude terms of \<open>manual_deploy\<close> are gone), the default
  category \<open>manual_fix\<close> is gone, and the lexicon is the default one.
\<close>

theorem shallow_merge_witness:
  "load_config (Some (Inr (Mapping \<lparr>usr_patterns =
        Some [(''manual_deploy'', \<lparr>rule_keywords = [''ship''], regex = [], file_patterns = [],
                                    exclude = []\<rparr>)],
        usr_severity = None\<rparr>)))
     = Inr \<lparr>cfg_patterns =
              [(''manual_deploy'', \<lparr>rule_keywords = [''ship''], regex = [], file_patterns = [],
                                     exclude = []\<rparr>)],
            cfg_severity = default_severity\<rparr>
   \<and> map_of [(''manual_deploy'', \<lparr>rule_keywords = [''ship''], regex = [], file_patterns = [],
                                    exclude = []\<rparr>)] ''manual_fix'' = None
   \<and> map_of default_patterns ''manual_fix'' \<noteq> None"
proof -
  have "map_of default_patterns ''manual_fix'' \<noteq> None"
    by (simp add: default_patterns_def)
  then show ?thesis
    using shallow_merge [of "[(''manual_deploy'', \<lparr>rule_keywords = [''ship''], regex = [],
        file_patterns = [], exclude = []\<rparr>)]"]
    by simp
qed

lemma scan_commits_error:
  "c \<in> set cs \<Longrightarrow> classify_commit cfg repo incl c = Inl err \<Longrightarrow>
     \<exists>err'. scan_commits cfg repo incl cs = Inl err'"
  by (induction cs) (auto split: sum.splits)

lemma classify_commit_error:
  "analyze_commit_message (cfg_patterns cfg) (message c) = Inl err \<Longrightarrow>
     classify_commit cfg repo incl c = Inl err"
  by (simp add: classify_commit_def)

lemma any_search_reaches:
  "\<forall>p \<in> set before. re_search p m = Inr False \<Longrightarrow>
     any_search (before @ Malformed src # after) m = Inl (RegexError src)"
  by (induction before) auto

lemma any_search_stops:
  "\<forall>p \<in> set before. re_search p m = Inr False \<Longrightarrow> re_search q m = Inr True \<Longrightarrow>
     any_search (before @ q # rest) m = Inr True"
  by (induction before) auto

text \<open>
  C8 (configuration fail-fast), as the claim states it: loading a rule set with an
  unparseable confirm pattern would fail, and the classifier would never run with such a
  rule. \<open>_load_config\<close> does not look into the rules. A user file whose rule
  \<open>manual_fix\<close> has a pattern that cannot be parsed loads; the classifier runs with the
  rule, gives no category to a message without the keyword, and raises on a message with
  it.
\<close>

theorem fail_fast_counterexample:
  "load_config (Some (Inr (Mapping \<lparr>usr_patterns =
        Some [(''manual_fix'', \<lparr>rule_keywords = [''fix''], regex = [Malformed ''fix(''],
                                 file_patterns = [], exclude = []\<rparr>)],
        usr_severity = None\<rparr>)))
     = Inr \<lparr>cfg_patterns =
              [(''manual_fix'', \<lparr>rule_keywords = [''fix''], regex = [Malformed ''fix(''],
                                  file_patterns = [], exclude = []\<rparr>)],
            cfg_severity = default_severity\<rparr>
   \<and> analyze_commit_message
        [(''manual_fix'', \<lparr>rule_keywords = [''fix''], regex = [Malformed ''fix(''],
                            file_patterns = [], exclude = []\<rparr>)] ''add docs'' = Inr None
   \<and> analyze_commit_message
        [(''manual_fix'', \<lparr>rule_keywords = [''fix''], regex = [Malformed ''fix(''],
                            file_patterns = [], exclude = []\<rparr>)] ''fix login''
       = Inl (RegexError ''fix('')"
  by code_simp

text \<open>
  C8, amended: loading validates no rule. Every user configuration that is a mapping
  loads, and its rules are kept as given, unparseable confirm patterns included. The
  classifier runs with such a rule. A message without a keyword of the rule is no match
  for it. On a message with a keyword, the unparseable pattern raises when the search
  reaches it, that is when none of the patterns before it in the rule is found in the
  message; when a pattern of the rule is found, the search stops there and the rule is
  decided by its exclude terms, whatever follows: an unparseable pattern behind it stays
  unnoticed.
  \<open>scan_git_history\<close> catches the exception: when the classification of one commit of
  the history raises, the scan of the repository returns the empty list.
\<close>

theorem no_validation_at_load:
  "(\<exists>cfg. load_config (Some (Inr (Mapping user))) = Inr cfg
          \<and> (\<forall>p. usr_patterns user = Some p \<longrightarrow> cfg_patterns cfg = p))
   \<and> (\<not> keyword_hit r (lower msg) \<longrightarrow> rule_matches (lower msg) r = Inr False)
   \<and> (keyword_hit r (lower msg) \<and> regex r = before @ Malformed src # after
        \<and> (\<forall>p \<in> set before. re_search p (lower msg) = Inr False)
        \<longrightarrow> rule_matches (lower msg) r = Inl (RegexError src))
   \<and> (keyword_hit r (lower msg) \<and> regex r = before @ q # rest
        \<and> (\<forall>p \<in> set before. re_search p (lower msg) = Inr False)
        \<and> re_search q (lower msg) = Inr True
        \<longrightarrow> rule_matches (lower msg) r = Inr (\<not> excluded r (lower msg)))
   \<and> (git_log e (resolve e repo) days = Inr out \<and> c \<in> set (parse_git_output out)
        \<and> analyze_commit_message (cfg_patterns cfg') (message c) = Inl err
        \<longrightarrow> scan_git_history cfg' e repo days incl = [])"
proof -
  have loads: "\<exists>cfg. load_config (Some (Inr (Mapping user))) = Inr cfg
          \<and> (\<forall>p. usr_patterns user = Some p \<longrightarrow> cfg_patterns cfg = p)"
    by (simp add: load_config_def)
  have silent: "rule_matches (lower msg) r = Inr False" if "\<not> keyword_hit r (lower msg)"
    using that by (simp add: rule_matches_def)
  have raises: "rule_matches (lower msg) r = Inl (RegexError src)"
    if h: "keyword_hit r (lower msg) \<and> regex r = before @ Malformed src # after
        \<and> (\<forall>p \<in> set before. re_search p (lower msg) = Inr False)"
  proof -
    from h have "any_search (before @ Malformed src # after) (lower msg) = Inl (RegexError src)"
      by (intro any_search_reaches) blast
    with h show ?thesis
      by (simp add: rule_matches_def confirmed_def)
  qed
  have hidden: "rule_matches (lower msg) r = Inr (\<not> excluded r (lower msg))"
    if h: "keyword_hit r (lower msg) \<and> regex r = before @ q # rest
        \<and> (\<forall>p \<in> set before. re_search p (lower msg) = Inr False)
        \<and> re_search q (lower msg) = Inr True"
  proof -
    from h have "any_search (before @ q # rest) (lower msg) = Inr True"
      by (intro any_search_stops) blast+
    with h show ?thesis
      by (simp add: rule_matches_def confirmed_def)
  qed
  have swallowed: "scan_git_history cfg' e repo days incl = []"
    if a: "git_log e (resolve e repo) days = Inr out \<and> c \<in> set (parse_git_output out)
        \<and> analyze_commit_message (cfg_patterns cfg') (message c) = Inl err"
  proof -
    from a have "classify_commit cfg' (resolve e repo) incl c = Inl err"
      by (simp add: classify_commit_error)
    with a obtain err' where
      "scan_commits cfg' (resolve e repo) incl (parse_git_output out) = Inl err'"
      using scan_commits_error by blast
    with a show ?thesis
      by (simp add: scan_git_history_def)
  qed
  from loads silent raises hidden swallowed show ?thesis
    by (intro conjI impI)
qed

text \<open>
  An instance: the rule \<open>manual_fix\<close> with the keyword \<open>fix\<close> and two confirm patterns,
  \<open>urgent\<close> and then one that cannot be parsed. The rule is silent on \<open>add docs\<close>
  (no keyword), raises on \<open>fix login\<close> (\<open>urgent\<close> is not found, the search reaches the
  second pattern) and matches \<open>urgent fix\<close> (\<open>urgent\<close> is found first). A history
  with the one commit \<open>fix login\<close> scans to the empty list.
\<close>

theorem no_validation_at_load_witness:
  "rule_matches (lower ''add docs'')
       \<lparr>rule_keywords = [''fix''], regex = [Regex (lit ''urgent''), Malformed ''fix(''],
        file_patterns = [], exclude = []\<rparr>
     = Inr False
   \<and> rule_matches (lower ''fix login'')
       \<lparr>rule_keywords = [''fix''], regex = [Regex (lit ''urgent''), Malformed ''fix(''],
        file_patterns = [], exclude = []\<rparr>
     = Inl (RegexError ''fix('')
   \<and> rule_matches (lower ''urgent fix'')
       \<lparr>rule_keywords = [''fix''], regex = [Regex (lit ''urgent''), Malformed ''fix(''],
        file_patterns = [], exclude = []\<rparr>
     = Inr True
   \<and> scan_git_history
       \<lparr>cfg_patterns =
          [(''manual_fix'', \<lparr>rule_keywords = [''fix''],
                              regex = [Regex (lit ''urgent''), Malformed ''fix(''],
                              file_patterns = [], exclude = []\<rparr>)],
        cfg_severity = default_severity\<rparr>
       \<lparr>resolve = (\<lambda>p. p),
        git_log = (\<lambda>p d. Inr ''abc1234|fix login|2024-01-01|dev''),
        git_last_commit = (\<lambda>p. Inr ''2024-01-01''),
        md5_hexdigest = (\<lambda>s. s),
        json_dump = (\<lambda>v. ''[]''),
        json_load = (\<lambda>s. None)\<rparr>
       ''/srv/repo'' 30 True = []"
proof -
  let ?r = "\<lparr>rule_keywords = [''fix''], regex = [Regex (lit ''urgent''), Malformed ''fix(''],
             file_patterns = [], exclude = []\<rparr>"
  let ?cfg = "\<lparr>cfg_patterns = [(''manual_fix'', ?r)], cfg_severity = default_severity\<rparr>"
  let ?e = "\<lparr>resolve = (\<lambda>p. p),
        git_log = (\<lambda>p d. Inr ''abc1234|fix login|2024-01-01|dev''),
        git_last_commit = (\<lambda>p. Inr ''2024-01-01''),
        md5_hexdigest = (\<lambda>s. s),
        json_dump = (\<lambda>v. ''[]''),
        json_load = (\<lambda>s. None)\<rparr>"
  let ?c = "\<lparr>hash = ''abc1234'', message = ''fix login'', date = ''2024-01-01'', author = ''dev'',
             files = []\<rparr>"
  have n: "\<not> keyword_hit ?r (lower ''add docs'')"
    by code_simp
  have k: "keyword_hit ?r (lower ''fix login'')
           \<and> regex ?r = [Regex (lit ''urgent'')] @ Malformed ''fix('' # []
           \<and> (\<forall>p \<in> set [Regex (lit ''urgent'')]. re_search p (lower ''fix login'') = Inr False)"
    by code_simp
  have u: "keyword_hit ?r (lower ''urgent fix'')
           \<and> regex ?r = [] @ Regex (lit ''urgent'') # [Malformed ''fix('']
           \<and> (\<forall>p \<in> set []. re_search p (lower ''urgent fix'') = Inr False)
           \<and> re_search (Regex (lit ''urgent'')) (lower ''urgent fix'') = Inr True"
    by code_simp
  have x: "\<not> excluded ?r (lower ''urgent fix'')"
    by code_simp
  have p: "parse_git_output ''abc1234|fix login|2024-01-01|dev'' = [?c]"
    by code_simp
  have a: "analyze_commit_message (cfg_patterns ?cfg) (message ?c) = Inl (RegexError ''fix('')"
    by code_simp
  have g: "git_log ?e (resolve ?e ''/srv/repo'') 30 = Inr ''abc1234|fix login|2024-01-01|dev''
           \<and> ?c \<in> set (parse_git_output ''abc1234|fix login|2024-01-01|dev'')
           \<and> analyze_commit_message (cfg_patterns ?cfg) (message ?c) = Inl (RegexError ''fix('')"
    using p a by simp
  note w1 = no_validation_at_load [where r = ?r and msg = "''add docs''",
      THEN conjunct2, THEN conjunct1, THEN mp, OF n]
  note w2 = no_validation_at_load [where r = ?r and msg = "''fix login''"
      and before = "[Regex (lit ''urgent'')]" and src = "''fix(''" and after = "[]",
      THEN conjunct2, THEN conjunct2, THEN conjunct1, THEN mp, OF k]
  note w3' = no_validation_at_load [where r = ?r and msg = "''urgent fix''"
      and before = "[]" and q = "Regex (lit ''urgent'')" and rest = "[Malformed ''fix('']",
      THEN conjunct2, THEN conjunct2, THEN conjunct2, THEN conjunct1, THEN mp, OF u]
  have w3: "rule_matches (lower ''urgent fix'') ?r = Inr True"
    using w3' x by (simp only: simp_thms)
  note w4 = no_validation_at_load [where e = ?e and repo = "''/srv/repo''" and days = 30
      and out = "''abc1234|fix login|2024-01-01|dev''" and c = ?c and cfg' = ?cfg
      and err = "RegexError ''fix(''" and incl = True,
      THEN conjunct2, THEN conjunct2, THEN conjunct2, THEN conjunct2, THEN mp, OF g]
  from w1 w2 w3 w4 show ?thesis
    by (intro conjI)
qed

section \<open>The file-based pass\<close>

lemma any_pattern_matches_no_files: "any_pattern_matches [] pats = Inr False"
  by (induction pats) auto

lemma files_match_nonempty: "files_match fs r = Inr True \<Longrightarrow> fs \<noteq> []"
  by (auto simp: files_match_def any_pattern_matches_no_files)

lemma analyze_files_changed_first:
  "\<forall>(t, r') \<in> set pre. files_match fs r' = Inr False \<Longrightarrow> files_match fs r = Inr True \<Longrightarrow>
     analyze_files_changed (pre @ (b, r) # post) fs = Inr (Some b)"
  by (simp add: analyze_files_changed_def first_match_skip)

lemma analyze_files_changed_none:
  "\<forall>(t, r) \<in> set pats. files_match fs r = Inr False \<Longrightarrow>
     analyze_files_changed pats fs = Inr None"
  by (simp add: analyze_files_changed_def first_match_none)

text \<open>
  C2 (file-based override). Let the message-based pass find the category \<open>a\<close> (a
  category is found when the pass returns a name that is not empty: the code tests the
  name for truth).
  \<^item> With file analysis enabled, if \<open>r\<close> is the first rule one of whose file patterns
    matches one of the changed paths (the rules before it match none), the event has the
    category \<open>b\<close> of \<open>r\<close>.
  \<^item> If no rule has a file pattern that matches a changed path, the event has the
    category \<open>a\<close>, file analysis enabled or not.
  \<^item> If the message-based pass finds nothing there is no event, whatever the changed
    files and the file patterns are: the file-based pass is not run.
\<close>

theorem file_based_override:
  "(analyze_commit_message (cfg_patterns cfg) (message c) = Inr (Some a) \<and> a \<noteq> []
      \<and> cfg_patterns cfg = pre @ (b, r) # post
      \<and> (\<forall>(t, r') \<in> set pre. files_match (files c) r' = Inr False)
      \<and> files_match (files c) r = Inr True \<and> b \<noteq> []
      \<longrightarrow> (\<exists>ev. classify_commit cfg repo True c = Inr (Some ev) \<and> task_type ev = b))
   \<and> (analyze_commit_message (cfg_patterns cfg) (message c) = Inr (Some a) \<and> a \<noteq> []
      \<and> (\<forall>(t, r) \<in> set (cfg_patterns cfg). files_match (files c) r = Inr False)
      \<longrightarrow> (\<exists>ev. classify_commit cfg repo incl c = Inr (Some ev) \<and> task_type ev = a))
   \<and> (analyze_commit_message (cfg_patterns cfg) (message c) = Inr None
      \<longrightarrow> classify_commit cfg repo incl c = Inr None)"
proof -
  have override: "\<exists>ev. classify_commit cfg repo True c = Inr (Some ev) \<and> task_type ev = b"
    if h: "analyze_commit_message (cfg_patterns cfg) (message c) = Inr (Some a) \<and> a \<noteq> []
      \<and> cfg_patterns cfg = pre @ (b, r) # post
      \<and> (\<forall>(t, r') \<in> set pre. files_match (files c) r' = Inr False)
      \<and> files_match (files c) r = Inr True \<and> b \<noteq> []"
  proof -
    from h have ne: "files c \<noteq> []"
      using files_match_nonempty by blast
    from h have "analyze_files_changed (pre @ (b, r) # post) (files c) = Inr (Some b)"
      by (intro analyze_files_changed_first) auto
    moreover from h have "cfg_patterns cfg = pre @ (b, r) # post"
      by blast
    ultimately have fb: "analyze_files_changed (cfg_patterns cfg) (files c) = Inr (Some b)"
      by simp
    from h have "analyze_commit_message (cfg_patterns cfg) (message c) = Inr (Some a)"
        "a \<noteq> []" "b \<noteq> []"
      by blast+
    with fb ne show ?thesis
      by (simp add: classify_commit_def)
  qed
  have stands: "\<exists>ev. classify_commit cfg repo incl c = Inr (Some ev) \<and> task_type ev = a"
    if h: "analyze_commit_message (cfg_patterns cfg) (message c) = Inr (Some a) \<and> a \<noteq> []
      \<and> (\<forall>(t, r) \<in> set (cfg_patterns cfg). files_match (files c) r = Inr False)"
  proof -
    from h have "analyze_files_changed (cfg_patterns cfg) (files c) = Inr None"
      by (intro analyze_files_changed_none) auto
    with h show ?thesis
      by (simp add: classify_commit_def)
  qed
  have not_run: "classify_commit cfg repo incl c = Inr None"
    if "analyze_commit_message (cfg_patterns cfg) (message c) = Inr None"
    using that by (simp add: classify_commit_def)
  from override stands not_run show ?thesis
    by (intro conjI impI)
qed

text \<open>
  Instances with the default rules. The message \<open>Emergency fix of config change\<close> is
  \<open>manual_fix\<close> by the message; with the changed file \<open>infra/main.tf\<close>, which the
  pattern \<open>*.tf\<close> of \<open>env_setup\<close> matches and no pattern of the three rules before it,
  the event is \<open>env_setup\<close>; with the changed file \<open>README.md\<close> alone it is
  \<open>manual_fix\<close>. The message \<open>update config file\<close> gives no event with the same files.
\<close>

theorem file_based_override_witness:
  "(\<exists>ev. classify_commit default_config ''/repo'' True
           \<lparr>hash = ''abc1234'', message = ''Emergency fix of config change'', date = ''2024-01-01'',
            author = ''dev'', files = [''README.md'', ''infra/main.tf'']\<rparr> = Inr (Some ev)
         \<and> task_type ev = ''env_setup'')
   \<and> (\<exists>ev. classify_commit default_config ''/repo'' True
           \<lparr>hash = ''abc1234'', message = ''Emergency fix of config change'', date = ''2024-01-01'',
            author = ''dev'', files = [''README.md'']\<rparr> = Inr (Some ev)
         \<and> task_type ev = ''manual_fix'')
   \<and> classify_commit default_config ''/repo'' True
           \<lparr>hash = ''abc1234'', message = ''update config file'', date = ''2024-01-01'',
            author = ''dev'', files = [''README.md'', ''infra/main.tf'']\<rparr> = Inr None"
proof -
  let ?c1 = "\<lparr>hash = ''abc1234'', message = ''Emergency fix of config change'',
              date = ''2024-01-01'', author = ''dev'', files = [''README.md'', ''infra/main.tf'']\<rparr>"
  let ?c2 = "\<lparr>hash = ''abc1234'', message = ''Emergency fix of config change'',
              date = ''2024-01-01'', author = ''dev'', files = [''README.md'']\<rparr>"
  let ?c3 = "\<lparr>hash = ''abc1234'', message = ''update config file'',
              date = ''2024-01-01'', author = ''dev'', files = [''README.md'', ''infra/main.tf'']\<rparr>"
  have m: "analyze_commit_message default_patterns ''Emergency fix of config change''
             = Inr (Some ''manual_fix'')"
    by code_simp
  have split: "default_patterns
      = take 3 default_patterns @ (''env_setup'', snd (default_patterns ! 3)) # drop 4 default_patterns"
    by (simp add: default_patterns_def)
  have before: "\<forall>(t, r') \<in> set (take 3 default_patterns).
                  files_match [''README.md'', ''infra/main.tf''] r' = Inr False"
    by code_simp
  have hit: "files_match [''README.md'', ''infra/main.tf''] (snd (default_patterns ! 3)) = Inr True"
    by code_simp
  have none: "\<forall>(t, r) \<in> set default_patterns. files_match [''README.md''] r = Inr False"
    by code_simp
  have h1: "analyze_commit_message (cfg_patterns default_config) (message ?c1)
              = Inr (Some ''manual_fix'') \<and> ''manual_fix'' \<noteq> []
      \<and> cfg_patterns default_config
          = take 3 default_patterns @ (''env_setup'', snd (default_patterns ! 3)) # drop 4 default_patterns
      \<and> (\<forall>(t, r') \<in> set (take 3 default_patterns). files_match (files ?c1) r' = Inr False)
      \<and> files_match (files ?c1) (snd (default_patterns ! 3)) = Inr True \<and> ''env_setup'' \<noteq> []"
    using m split before hit by (simp add: default_config_def)
  have h2: "analyze_commit_message (cfg_patterns default_config) (message ?c2)
              = Inr (Some ''manual_fix'') \<and> ''manual_fix'' \<noteq> []
      \<and> (\<forall>(t, r) \<in> set (cfg_patterns default_config). files_match (files ?c2) r = Inr False)"
    using m none by (simp add: default_config_def)
  have h3: "analyze_commit_message (cfg_patterns default_config) (message ?c3) = Inr None"
    using update_config_file_no_category by (simp add: default_config_def)
  from h1 file_based_override [where cfg = default_config and c = ?c1 and a = "''manual_fix''"
        and pre = "take 3 default_patterns" and b = "''env_setup''"
        and r = "snd (default_patterns ! 3)" and post = "drop 4 default_patterns"
        and repo = "''/repo''" and incl = True]
  have w1: "\<exists>ev. classify_commit default_config ''/repo'' True ?c1 = Inr (Some ev)
              \<and> task_type ev = ''env_setup''"
    by blast
  from h2 file_based_override [where cfg = default_config and c = ?c2 and a = "''manual_fix''"
        and pre = "take 3 default_patterns" and b = "''env_setup''"
        and r = "snd (default_patterns ! 3)" and post = "drop 4 default_patterns"
        and repo = "''/repo''" and incl = True]
  have w2: "\<exists>ev. classify_commit default_config ''/repo'' True ?c2 = Inr (Some ev)
              \<and> task_type ev = ''manual_fix''"
    by blast
  from h3 file_based_override [where cfg = default_config and c = ?c3 and a = "''manual_fix''"
        and pre = "take 3 default_patterns" and b = "''env_setup''"
        and r = "snd (default_patterns ! 3)" and post = "drop 4 default_patterns"
        and repo = "''/repo''" and incl = True]
  have w3: "classify_commit default_config ''/repo'' True ?c3 = Inr None"
    by blast
  from w1 w2 w3 show ?thesis
    by (intro conjI)
qed

section \<open>Scanning several repositories: properties\<close>

lemma fold_upd:
  "fold (\<lambda>k m. m(k \<mapsto> g k)) ks m0 = (\<lambda>k. if k \<in> set ks then Some (g k) else m0 k)"
  by (induction ks arbitrary: m0) (auto simp: fun_eq_iff)

lemma scan_multiple_repos_lookup:
  "scan_multiple_repos cfg e completed days p
     = (if p \<in> set completed then Some (scan_git_history cfg e p days True) else None)"
  by (simp add: scan_multiple_repos_def fold_upd)

lemma scan_git_history_failure:
  "git_log e (resolve e repo) days = Inl err \<Longrightarrow> scan_git_history cfg e repo days incl = []"
  by (simp add: scan_git_history_def)

lemma scan_git_history_no_commits:
  "git_log e (resolve e repo) days = Inr [] \<Longrightarrow> scan_git_history cfg e repo days incl = []"
  by (simp add: scan_git_history_def parse_git_output_def strip_def)

text \<open>
  C9 (multi-repo isolation), as the claim states it: the failure of the scan of a path
  would be captured in the entry of that path. \<open>scan_git_history\<close> prints the error and
  returns the empty list, and \<open>scan_multiple_repos\<close> stores that list: the entry of a
  path that is not a git repository is the entry of a repository without commits, and
  nothing in the mapping tells the two apart.
\<close>

theorem failure_not_recorded_counterexample:
  "scan_multiple_repos default_config
      \<lparr>resolve = (\<lambda>p. p),
       git_log = (\<lambda>p d. Inl (GitError ''not a git repository'')),
       git_last_commit = (\<lambda>p. Inr ''2024-01-01''),
       md5_hexdigest = (\<lambda>s. s),
       json_dump = (\<lambda>v. ''[]''),
       json_load = (\<lambda>s. None)\<rparr>
      [''/srv/a''] 30 ''/srv/a'' = Some []
   \<and> scan_multiple_repos default_config
      \<lparr>resolve = (\<lambda>p. p),
       git_log = (\<lambda>p d. Inr []),
       git_last_commit = (\<lambda>p. Inr ''2024-01-01''),
       md5_hexdigest = (\<lambda>s. s),
       json_dump = (\<lambda>v. ''[]''),
       json_load = (\<lambda>s. None)\<rparr>
      [''/srv/a''] 30 ''/srv/a'' = Some []"
  by (simp add: scan_multiple_repos_lookup scan_git_history_failure scan_git_history_no_commits)

text \<open>
  C9, amended. Whatever the order in which the scans complete, the mapping has an entry
  for each requested path and for no other, hence \<open>N\<close> entries for \<open>N\<close> distinct paths.
  The entry of a path is the list its own \<open>scan_git_history\<close> returns. For a path whose
  \<open>git log\<close> fails that list is empty: the entry is the one a repository without
  commits has, and the failure is not recorded in the mapping (it is only printed). The
  entry of a path depends on the history of that path alone: it is the same in any
  world that agrees on that path, whatever happens to the other paths.
\<close>

theorem multi_repo_isolation:
  assumes "set completed = set repo_paths"
  shows "dom (scan_multiple_repos cfg e completed days) = set repo_paths
    \<and> (distinct repo_paths \<longrightarrow>
          card (dom (scan_multiple_repos cfg e completed days)) = length repo_paths)
    \<and> (\<forall>p \<in> set repo_paths.
          scan_multiple_repos cfg e completed days p = Some (scan_git_history cfg e p days True))
    \<and> (\<forall>p \<in> set repo_paths. \<forall>err. git_log e (resolve e p) days = Inl err \<longrightarrow>
          scan_multiple_repos cfg e completed days p = Some [])
    \<and> (\<forall>p \<in> set repo_paths. \<forall>err.
          git_log e (resolve e p) days = Inl err \<and> git_log e' (resolve e' p) days = Inr [] \<longrightarrow>
          scan_multiple_repos cfg e completed days p = scan_multiple_repos cfg e' completed days p)
    \<and> (\<forall>p \<in> set repo_paths.
          resolve e' p = resolve e p \<and> git_log e' (resolve e p) = git_log e (resolve e p) \<longrightarrow>
          scan_multiple_repos cfg e' completed days p = scan_multiple_repos cfg e completed days p)"
proof -
  have dom_eq: "dom (scan_multiple_repos cfg e completed days) = set repo_paths"
    using assms by (auto simp: scan_multiple_repos_lookup dom_def)
  have count: "distinct repo_paths \<longrightarrow>
          card (dom (scan_multiple_repos cfg e completed days)) = length repo_paths"
    by (simp add: dom_eq distinct_card)
  have each: "\<forall>p \<in> set repo_paths.
          scan_multiple_repos cfg e completed days p = Some (scan_git_history cfg e p days True)"
    using assms by (simp add: scan_multiple_repos_lookup)
  have failing: "\<forall>p \<in> set repo_paths. \<forall>err. git_log e (resolve e p) days = Inl err \<longrightarrow>
          scan_multiple_repos cfg e completed days p = Some []"
    using assms by (simp add: scan_multiple_repos_lookup scan_git_history_failure)
  have same_as_empty: "\<forall>p \<in> set repo_paths. \<forall>err.
          git_log e (resolve e p) days = Inl err \<and> git_log e' (resolve e' p) days = Inr [] \<longrightarrow>
          scan_multiple_repos cfg e completed days p = scan_multiple_repos cfg e' completed days p"
    using assms
    by (simp add: scan_multiple_repos_lookup scan_git_history_failure scan_git_history_no_commits)
  have own: "\<forall>p \<in> set repo_paths.
          resolve e' p = resolve e p \<and> git_log e' (resolve e p) = git_log e (resolve e p) \<longrightarrow>
          scan_multiple_repos cfg e' completed days p = scan_multiple_repos cfg e completed days p"
    using assms by (simp add: scan_multiple_repos_lookup scan_git_history_def)
  from dom_eq count each failing same_as_empty own show ?thesis
    by (intro conjI)
qed

text \<open>
  Two paths, of which \<open>a\<close> is not a git repository and \<open>b\<close> has one commit that is
  toil; \<open>b\<close> completes first. The mapping has the two entries, the empty list for \<open>a\<close>
  and the event for \<open>b\<close>.
\<close>

theorem multi_repo_isolation_witness:
  "dom (scan_multiple_repos default_config
          \<lparr>resolve = (\<lambda>p. ''/srv/'' @ p),
           git_log = (\<lambda>p d. if p = ''/srv/a'' then Inl (GitError ''not a git repository'')
                             else Inr ''abc1234|Emergency fix of login|2024-01-01|dev''),
           git_last_commit = (\<lambda>p. Inr ''2024-01-01''),
           md5_hexdigest = (\<lambda>s. s),
           json_dump = (\<lambda>v. ''[]''),
           json_load = (\<lambda>s. None)\<rparr>
          [''b'', ''a''] 30) = {''a'', ''b''}
   \<and> scan_multiple_repos default_config
          \<lparr>resolve = (\<lambda>p. ''/srv/'' @ p),
           git_log = (\<lambda>p d. if p = ''/srv/a'' then Inl (GitError ''not a git repository'')
                             else Inr ''abc1234|Emergency fix of login|2024-01-01|dev''),
           git_last_commit = (\<lambda>p. Inr ''2024-01-01''),
           md5_hexdigest = (\<lambda>s. s),
           json_dump = (\<lambda>v. ''[]''),
           json_load = (\<lambda>s. None)\<rparr>
          [''b'', ''a''] 30 ''a'' = Some []
   \<and> scan_multiple_repos default_config
          \<lparr>resolve = (\<lambda>p. ''/srv/'' @ p),
           git_log = (\<lambda>p d. if p = ''/srv/a'' then Inl (GitError ''not a git repository'')
                             else Inr ''abc1234|Emergency fix of login|2024-01-01|dev''),
           git_last_commit = (\<lambda>p. Inr ''2024-01-01''),
           md5_hexdigest = (\<lambda>s. s),
           json_dump = (\<lambda>v. ''[]''),
           json_load = (\<lambda>s. None)\<rparr>
          [''b'', ''a''] 30 ''b''
       = Some [\<lparr>ev_date = ''2024-01-01'', repo_path = ''/srv/b'', task_type = ''manual_fix'',
                 description = ''Emergency fix of login'', severity = codes ''HIGH'',
                 ev_author = ''dev'', files_changed = []\<rparr>]"
proof -
  let ?e = "\<lparr>resolve = (\<lambda>p. ''/srv/'' @ p),
           git_log = (\<lambda>p d. if p = ''/srv/a'' then Inl (GitError ''not a git repository'')
                             else Inr ''abc1234|Emergency fix of login|2024-01-01|dev''),
           git_last_commit = (\<lambda>p. Inr ''2024-01-01''),
           md5_hexdigest = (\<lambda>s. s),
           json_dump = (\<lambda>v. ''[]''),
           json_load = (\<lambda>s. None)\<rparr>"
  have s: "set [''b'', ''a''] = set [''a'', ''b'']"
    by auto
  note m = multi_repo_isolation [OF s, of default_config ?e 30 ?e]
  have fails: "git_log ?e (resolve ?e ''a'') 30 = Inl (GitError ''not a git repository'')"
    by simp
  have scans: "scan_git_history default_config ?e ''b'' 30 True
       = [\<lparr>ev_date = ''2024-01-01'', repo_path = ''/srv/b'', task_type = ''manual_fix'',
           description = ''Emergency fix of login'', severity = codes ''HIGH'',
           ev_author = ''dev'', files_changed = []\<rparr>]"
    by code_simp
  have a_in: "''a'' \<in> set [''a'', ''b'']" and b_in: "''b'' \<in> set [''a'', ''b'']"
    by simp_all
  from m have "dom (scan_multiple_repos default_config ?e [''b'', ''a''] 30) = set [''a'', ''b'']"
    by (rule conjunct1)
  then have w1: "dom (scan_multiple_repos default_config ?e [''b'', ''a''] 30) = {''a'', ''b''}"
    by simp
  note failing = m [THEN conjunct2, THEN conjunct2, THEN conjunct2, THEN conjunct1]
  note w2 = failing [THEN bspec, OF a_in, THEN spec, THEN mp, OF fails]
  note each = m [THEN conjunct2, THEN conjunct2, THEN conjunct1]
  note b_entry = each [THEN bspec, OF b_in]
  from b_entry scans have w3: "scan_multiple_repos default_config ?e [''b'', ''a''] 30 ''b''
       = Some [\<lparr>ev_date = ''2024-01-01'', repo_path = ''/srv/b'', task_type = ''manual_fix'',
                 description = ''Emergency fix of login'', severity = codes ''HIGH'',
                 ev_author = ''dev'', files_changed = []\<rparr>]"
    by (simp only:)
  from w1 w2 w3 show ?thesis
    by (intro conjI)
qed

section \<open>The result cache: properties\<close>

lemma cache_get_hit:
  "dir (get_cache_key e repo days) = File f \<Longrightarrow> now - st_mtime f \<le> ttl \<Longrightarrow> readable f \<Longrightarrow>
   json_load e (content f) = Some v \<Longrightarrow> cache_get e ttl now dir repo days = (Inr v, dir)"
  by (simp add: cache_get_def)

lemma cache_get_payload:
  "cache_get e ttl now dir repo days = (Inr v, dir') \<Longrightarrow> v \<noteq> PyNone \<Longrightarrow>
     dir' = dir \<and> (\<exists>f. dir (get_cache_key e repo days) = File f \<and> now - st_mtime f \<le> ttl
                     \<and> readable f \<and> json_load e (content f) = Some v)"
  by (auto simp: cache_get_def unlink_and_miss_def Let_def split: option.splits lookup.splits if_splits)

lemma cache_get_invalid:
  "dir (get_cache_key e repo days) = File f \<Longrightarrow>
   now - st_mtime f > ttl \<or> \<not> readable f \<or> json_load e (content f) = None \<Longrightarrow>
   removable f \<Longrightarrow>
   cache_get e ttl now dir repo days = (Inr PyNone, dir(get_cache_key e repo days := Absent))"
  by (auto simp: cache_get_def unlink_and_miss_def Let_def split: option.splits lookup.splits if_splits)

lemma cache_get_miss:
  "cache_get e ttl now dir repo days = (Inr PyNone, dir') \<Longrightarrow>
     dir' (get_cache_key e repo days) = Absent
     \<or> (\<exists>old. dir' (get_cache_key e repo days) = File old \<and> readable old)"
  by (auto simp: cache_get_def unlink_and_miss_def Let_def split: option.splits lookup.splits if_splits)

lemma key_data_fingerprint:
  "resolve e' repo = resolve e repo \<Longrightarrow> key_data e' repo days = key_data e repo days \<Longrightarrow>
     get_last_commit_date e' repo = get_last_commit_date e repo"
  by (simp add: key_data_def)

lemma example_cache_key:
  "get_cache_key
     \<lparr>resolve = (\<lambda>p. p), git_log = gl, git_last_commit = (\<lambda>p. Inr ''2024-01-01''),
      md5_hexdigest = (\<lambda>s. s), json_dump = jd, json_load = jl\<rparr> ''/srv/repo'' 30
   = ''/srv/repo:30:2024-01-01''"
  unfolding get_cache_key_def key_data_def get_last_commit_date_def
  by code_simp

text \<open>
  C6 (cache entry validity), as the claim states it: a get would return the payload of
  an entry only while the age of the entry is below the TTL. The code removes an entry
  when its age is above the TTL (\<open>file_age > self.ttl\<close>) and returns one whose age
  equals the TTL: with a TTL of 3600 seconds, an entry written at time 0 is returned at
  time 3600. (The hash is taken to be the identity here; the example does not depend on
  it.)
\<close>

theorem cache_ttl_boundary_counterexample:
  "fst (cache_get
          \<lparr>resolve = (\<lambda>p. p), git_log = (\<lambda>p d. Inr []),
           git_last_commit = (\<lambda>p. Inr ''2024-01-01''), md5_hexdigest = (\<lambda>s. s),
           json_dump = (\<lambda>v. ''[]''),
           json_load = (\<lambda>s. if s = ''[]'' then Some (Events []) else None)\<rparr>
          3600 3600
          ((\<lambda>k. Absent)(''/srv/repo:30:2024-01-01'' :=
             File \<lparr>st_mtime = 0, readable = True, removable = True, content = ''[]''\<rparr>))
          ''/srv/repo'' 30) = Inr (Events [])
   \<and> \<not> ((3600 :: real) - 0 < 3600)"
  by (simp add: cache_get_def example_cache_key)

text \<open>
  The claim also has no error reach the caller. Neither \<open>unlink\<close> of \<open>get\<close> is guarded:
  for an entry that cannot be read and cannot be removed (a file of another user in a
  directory the caller may not write), \<open>get\<close> raises and the entry stays. The amended
  statement below speaks of entries that can be removed only.
\<close>

lemma cache_unlink_raises_example:
  "cache_get
      \<lparr>resolve = (\<lambda>p. p), git_log = (\<lambda>p d. Inr []),
       git_last_commit = (\<lambda>p. Inr ''2024-01-01''), md5_hexdigest = (\<lambda>s. s),
       json_dump = (\<lambda>v. ''[]''),
       json_load = (\<lambda>s. if s = ''[]'' then Some (Events []) else None)\<rparr>
      3600 10
      ((\<lambda>k. Absent)(''/srv/repo:30:2024-01-01'' :=
         File \<lparr>st_mtime = 0, readable = False, removable = False, content = ''[]''\<rparr>))
      ''/srv/repo'' 30
    = (Inl (OSError ''Permission denied''),
       ((\<lambda>k. Absent)(''/srv/repo:30:2024-01-01'' :=
         File \<lparr>st_mtime = 0, readable = False, removable = False, content = ''[]''\<rparr>)))"
  by (simp add: cache_get_def unlink_and_miss_def example_cache_key)

text \<open>
  C6, amended: a get returns a payload only from an entry whose age is at most the TTL,
  whose file can be read and whose text parses, and then leaves the directory as it is.
  An entry whose age exceeds the TTL, or whose content cannot be read or parsed, and
  whose file can be removed, is a miss and is removed from the directory, and no error
  reaches the caller. The fingerprint is part of the key: after the fingerprint of the
  repository has changed (the two key texts not colliding under the hash), a get does
  not see the entry written under the former fingerprint: it returns what it would
  return had that entry not been written, so a miss unless an entry is stored under the
  new key; the entry written under the former fingerprint stays in the directory.
\<close>

theorem cache_entry_validity:
  "(cache_get e ttl now dir repo days = (Inr v, dir') \<and> v \<noteq> PyNone
      \<longrightarrow> dir' = dir \<and> (\<exists>f. dir (get_cache_key e repo days) = File f \<and> now - st_mtime f \<le> ttl
                           \<and> readable f \<and> json_load e (content f) = Some v))
   \<and> (dir (get_cache_key e repo days) = File f
        \<and> (now - st_mtime f > ttl \<or> \<not> readable f \<or> json_load e (content f) = None)
        \<and> removable f
      \<longrightarrow> cache_get e ttl now dir repo days = (Inr PyNone, dir(get_cache_key e repo days := Absent)))
   \<and> (resolve e' repo = resolve e repo
        \<and> get_last_commit_date e' repo \<noteq> get_last_commit_date e repo
        \<and> md5_hexdigest e' = md5_hexdigest e
        \<and> (md5_hexdigest e (key_data e' repo days) = md5_hexdigest e (key_data e repo days)
             \<longrightarrow> key_data e' repo days = key_data e repo days)
      \<longrightarrow> fst (cache_get e' ttl now (cache_set e written True dir repo days data) repo days)
            = fst (cache_get e' ttl now dir repo days)
          \<and> snd (cache_get e' ttl now (cache_set e written True dir repo days data) repo days)
              (get_cache_key e repo days)
            = cache_set e written True dir repo days data (get_cache_key e repo days))"
proof -
  have payload: "dir' = dir \<and> (\<exists>f. dir (get_cache_key e repo days) = File f
        \<and> now - st_mtime f \<le> ttl \<and> readable f \<and> json_load e (content f) = Some v)"
    if "cache_get e ttl now dir repo days = (Inr v, dir') \<and> v \<noteq> PyNone"
    using that cache_get_payload by blast
  have invalid: "cache_get e ttl now dir repo days
        = (Inr PyNone, dir(get_cache_key e repo days := Absent))"
    if "dir (get_cache_key e repo days) = File f
        \<and> (now - st_mtime f > ttl \<or> \<not> readable f \<or> json_load e (content f) = None)
        \<and> removable f"
    using that cache_get_invalid by blast
  have moved: "fst (cache_get e' ttl now (cache_set e written True dir repo days data) repo days)
            = fst (cache_get e' ttl now dir repo days)
          \<and> snd (cache_get e' ttl now (cache_set e written True dir repo days data) repo days)
              (get_cache_key e repo days)
            = cache_set e written True dir repo days data (get_cache_key e repo days)"
    if h: "resolve e' repo = resolve e repo
        \<and> get_last_commit_date e' repo \<noteq> get_last_commit_date e repo
        \<and> md5_hexdigest e' = md5_hexdigest e
        \<and> (md5_hexdigest e (key_data e' repo days) = md5_hexdigest e (key_data e repo days)
             \<longrightarrow> key_data e' repo days = key_data e repo days)"
  proof -
    from h have "key_data e' repo days \<noteq> key_data e repo days"
      using key_data_fingerprint by blast
    with h have "get_cache_key e' repo days \<noteq> get_cache_key e repo days"
      by (auto simp: get_cache_key_def)
    then show ?thesis
      by (auto simp: cache_get_def cache_set_def unlink_and_miss_def Let_def
          split: option.splits lookup.splits)
  qed
  show ?thesis
  proof (intro conjI)
    show "cache_get e ttl now dir repo days = (Inr v, dir') \<and> v \<noteq> PyNone
      \<longrightarrow> dir' = dir \<and> (\<exists>f. dir (get_cache_key e repo days) = File f \<and> now - st_mtime f \<le> ttl
                           \<and> readable f \<and> json_load e (content f) = Some v)"
      using payload by (rule impI)
    show "dir (get_cache_key e repo days) = File f
        \<and> (now - st_mtime f > ttl \<or> \<not> readable f \<or> json_load e (content f) = None)
        \<and> removable f
      \<longrightarrow> cache_get e ttl now dir repo days = (Inr PyNone, dir(get_cache_key e repo days := Absent))"
      using invalid by (rule impI)
    show "resolve e' repo = resolve e repo
        \<and> get_last_commit_date e' repo \<noteq> get_last_commit_date e repo
        \<and> md5_hexdigest e' = md5_hexdigest e
        \<and> (md5_hexdigest e (key_data e' repo days) = md5_hexdigest e (key_data e repo days)
             \<longrightarrow> key_data e' repo days = key_data e repo days)
      \<longrightarrow> fst (cache_get e' ttl now (cache_set e written True dir repo days data) repo days)
            = fst (cache_get e' ttl now dir repo days)
          \<and> snd (cache_get e' ttl now (cache_set e written True dir repo days data) repo days)
              (get_cache_key e repo days)
            = cache_set e written True dir repo days data (get_cache_key e repo days)"
      using moved by (rule impI)
  qed
qed

text \<open>
  Instances, with a TTL of 3600 seconds and an entry written at time 0: at time 3600
  the payload is returned from that entry; at time 3601 the entry is a miss and is
  removed; an entry whose text does not parse is a miss and is removed; after a new
  commit (another last commit date) the get is a miss and the old entry stays.
\<close>

theorem cache_entry_validity_witness:
  "(\<exists>f. ((\<lambda>k. Absent)(''/srv/repo:30:2024-01-01'' :=
             File \<lparr>st_mtime = 0, readable = True, removable = True, content = ''[]''\<rparr>))
          (get_cache_key
             \<lparr>resolve = (\<lambda>p. p), git_log = (\<lambda>p d. Inr []),
              git_last_commit = (\<lambda>p. Inr ''2024-01-01''), md5_hexdigest = (\<lambda>s. s),
              json_dump = (\<lambda>v. ''[]''),
              json_load = (\<lambda>s. if s = ''[]'' then Some (Events []) else None)\<rparr>
             ''/srv/repo'' 30) = File f
        \<and> 3600 - st_mtime f \<le> 3600 \<and> readable f)
   \<and> cache_get
      \<lparr>resolve = (\<lambda>p. p), git_log = (\<lambda>p d. Inr []),
       git_last_commit = (\<lambda>p. Inr ''2024-01-01''), md5_hexdigest = (\<lambda>s. s),
       json_dump = (\<lambda>v. ''[]''),
       json_load = (\<lambda>s. if s = ''[]'' then Some (Events []) else None)\<rparr>
      3600 3601
      ((\<lambda>k. Absent)(''/srv/repo:30:2024-01-01'' :=
         File \<lparr>st_mtime = 0, readable = True, removable = True, content = ''[]''\<rparr>))
      ''/srv/repo'' 30
    = (Inr PyNone, (\<lambda>k. Absent))
   \<and> cache_get
      \<lparr>resolve = (\<lambda>p. p), git_log = (\<lambda>p d. Inr []),
       git_last_commit = (\<lambda>p. Inr ''2024-01-01''), md5_hexdigest = (\<lambda>s. s),
       json_dump = (\<lambda>v. ''[]''),
       json_load = (\<lambda>s. if s = ''[]'' then Some (Events []) else None)\<rparr>
      3600 10
      ((\<lambda>k. Absent)(''/srv/repo:30:2024-01-01'' :=
         File \<lparr>st_mtime = 0, readable = True, removable = True, content = ''[{''\<rparr>))
      ''/srv/repo'' 30
    = (Inr PyNone, (\<lambda>k. Absent))
   \<and> fst (cache_get
      \<lparr>resolve = (\<lambda>p. p), git_log = (\<lambda>p d. Inr []),
       git_last_commit = (\<lambda>p. Inr ''2024-01-02''), md5_hexdigest = (\<lambda>s. s),
       json_dump = (\<lambda>v. ''[]''),
       json_load = (\<lambda>s. if s = ''[]'' then Some (Events []) else None)\<rparr>
      3600 10
      ((\<lambda>k. Absent)(''/srv/repo:30:2024-01-01'' :=
         File \<lparr>st_mtime = 0, readable = True, removable = True, content = ''[]''\<rparr>))
      ''/srv/repo'' 30)
    = Inr PyNone"
proof -
  let ?e = "\<lparr>resolve = (\<lambda>p. p), git_log = (\<lambda>p d. Inr []),
       git_last_commit = (\<lambda>p. Inr ''2024-01-01''), md5_hexdigest = (\<lambda>s. s),
       json_dump = (\<lambda>v. ''[]''),
       json_load = (\<lambda>s. if s = ''[]'' then Some (Events []) else None)\<rparr>"
  let ?e' = "\<lparr>resolve = (\<lambda>p. p), git_log = (\<lambda>p d. Inr []),
       git_last_commit = (\<lambda>p. Inr ''2024-01-02''), md5_hexdigest = (\<lambda>s. s),
       json_dump = (\<lambda>v. ''[]''),
       json_load = (\<lambda>s. if s = ''[]'' then Some (Events []) else None)\<rparr>"
  let ?k = "''/srv/repo:30:2024-01-01''"
  let ?good = "\<lparr>st_mtime = 0, readable = True, removable = True, content = ''[]''\<rparr>"
  let ?bad = "\<lparr>st_mtime = 0, readable = True, removable = True, content = ''[{''\<rparr>"
  have k: "get_cache_key ?e ''/srv/repo'' 30 = ?k"
    by (rule example_cache_key)
  have hit: "cache_get ?e 3600 3600 ((\<lambda>k. Absent)(?k := File ?good)) ''/srv/repo'' 30
               = (Inr (Events []), ((\<lambda>k. Absent)(?k := File ?good))) \<and> Events [] \<noteq> PyNone"
    by (simp add: cache_get_def k)
  have expired: "((\<lambda>k. Absent)(?k := File ?good)) (get_cache_key ?e ''/srv/repo'' 30) = File ?good
        \<and> (3601 - st_mtime ?good > 3600 \<or> \<not> readable ?good
            \<or> json_load ?e (content ?good) = None)
        \<and> removable ?good"
    by (simp add: k)
  have corrupt: "((\<lambda>k. Absent)(?k := File ?bad)) (get_cache_key ?e ''/srv/repo'' 30) = File ?bad
        \<and> (10 - st_mtime ?bad > 3600 \<or> \<not> readable ?bad
            \<or> json_load ?e (content ?bad) = None)
        \<and> removable ?bad"
    by (simp add: k)
  have d: "get_last_commit_date ?e' ''/srv/repo'' = ''2024-01-02''"
      "get_last_commit_date ?e ''/srv/repo'' = ''2024-01-01''"
    unfolding get_last_commit_date_def by code_simp+
  have changed: "resolve ?e' ''/srv/repo'' = resolve ?e ''/srv/repo''
        \<and> get_last_commit_date ?e' ''/srv/repo'' \<noteq> get_last_commit_date ?e ''/srv/repo''
        \<and> md5_hexdigest ?e' = md5_hexdigest ?e
        \<and> (md5_hexdigest ?e (key_data ?e' ''/srv/repo'' 30)
              = md5_hexdigest ?e (key_data ?e ''/srv/repo'' 30)
             \<longrightarrow> key_data ?e' ''/srv/repo'' 30 = key_data ?e ''/srv/repo'' 30)"
    by (simp add: d)
  have w: "cache_set ?e 0 True (\<lambda>k. Absent) ''/srv/repo'' 30 [] = ((\<lambda>k. Absent)(?k := File ?good))"
    by (simp add: cache_set_def k)
  have none: "fst (cache_get ?e' 3600 10 (\<lambda>k. Absent) ''/srv/repo'' 30) = Inr PyNone"
    by (simp add: cache_get_def)
  note v1 = cache_entry_validity [where e = ?e and ttl = 3600 and now = 3600
      and repo = "''/srv/repo''" and days = 30 and dir = "((\<lambda>k. Absent)(?k := File ?good))"
      and v = "Events []" and dir' = "((\<lambda>k. Absent)(?k := File ?good))",
      THEN conjunct1, THEN mp, OF hit, THEN conjunct2]
  from v1 have w0: "\<exists>f. ((\<lambda>k. Absent)(?k := File ?good)) (get_cache_key ?e ''/srv/repo'' 30) = File f
        \<and> 3600 - st_mtime f \<le> 3600 \<and> readable f"
    by blast
  note v2 = cache_entry_validity [where e = ?e and ttl = 3600 and now = 3601
      and repo = "''/srv/repo''" and days = 30 and dir = "((\<lambda>k. Absent)(?k := File ?good))"
      and f = ?good, THEN conjunct2, THEN conjunct1, THEN mp, OF expired]
  from v2 have w1: "cache_get ?e 3600 3601 ((\<lambda>k. Absent)(?k := File ?good)) ''/srv/repo'' 30
          = (Inr PyNone, (\<lambda>k. Absent))"
    by (simp add: k fun_upd_idem)
  note v3 = cache_entry_validity [where e = ?e and ttl = 3600 and now = 10
      and repo = "''/srv/repo''" and days = 30 and dir = "((\<lambda>k. Absent)(?k := File ?bad))"
      and f = ?bad, THEN conjunct2, THEN conjunct1, THEN mp, OF corrupt]
  from v3 have w2: "cache_get ?e 3600 10 ((\<lambda>k. Absent)(?k := File ?bad)) ''/srv/repo'' 30
          = (Inr PyNone, (\<lambda>k. Absent))"
    by (simp add: k fun_upd_idem)
  note v4 = cache_entry_validity [where e = ?e and e' = ?e' and ttl = 3600 and now = 10
      and repo = "''/srv/repo''" and days = 30 and dir = "(\<lambda>k. Absent)" and written = 0
      and data = "[]", THEN conjunct2, THEN conjunct2, THEN mp, OF changed, THEN conjunct1]
  from v4 have w3: "fst (cache_get ?e' 3600 10 ((\<lambda>k. Absent)(?k := File ?good)) ''/srv/repo'' 30)
          = Inr PyNone"
    by (simp only: w none)
  from w0 w1 w2 w3 show ?thesis
    by (intro conjI)
qed

lemma scan_with_caching_entry:
  assumes "scan_with_caching cfg e ttl now1 ok st repo days = (Inr r1, st1)"
    and "ok \<or> history_scans st1 = history_scans st"
    and "cache_files st1 (get_cache_key e repo days) = File f"
    and "json_load e (json_dump e r1) = Some r1"
  shows "readable f \<and> json_load e (content f) = Some r1 \<and> r1 \<noteq> PyNone"
proof (cases "cache_get e ttl now1 (cache_files st) repo days")
  case (Pair res dir)
  show ?thesis
  proof (cases res)
    case (Inl err)
    with Pair assms(1) show ?thesis
      by (simp add: scan_with_caching_def)
  next
    case (Inr cached)
    show ?thesis
    proof (cases "cached = PyNone")
      case True
      with Pair Inr assms(1)
      have r1: "r1 = Events (scan_git_history cfg e repo days True)"
        and st1: "cache_files st1
                    = cache_set e now1 ok dir repo days (scan_git_history cfg e repo days True)"
        and scans: "history_scans st1 = history_scans st @ [(repo, days)]"
        by (auto simp: scan_with_caching_def Let_def)
      from scans assms(2) have ok: "ok"
        by auto
      from Pair Inr True
      have "dir (get_cache_key e repo days) = Absent
          \<or> (\<exists>old. dir (get_cache_key e repo days) = File old \<and> readable old)"
        using cache_get_miss by blast
      with st1 ok assms(3) have "readable f \<and> content f = json_dump e r1"
        by (auto simp: cache_set_def Let_def r1)
      with assms(4) r1 show ?thesis
        by simp
    next
      case False
      with Pair Inr assms(1) have eq: "r1 = cached" "cache_files st1 = dir"
        by (auto simp: scan_with_caching_def)
      from Pair Inr False
      have "dir = cache_files st
          \<and> (\<exists>f'. cache_files st (get_cache_key e repo days) = File f'
                 \<and> now1 - st_mtime f' \<le> ttl \<and> readable f'
                 \<and> json_load e (content f') = Some cached)"
        using cache_get_payload by blast
      with eq assms(3) False show ?thesis
        by auto
    qed
  qed
qed

text \<open>
  C7 (cache idempotence). Let a scan of a repository return the list \<open>r1\<close> and leave the
  state \<open>st1\<close>, having stored its list in the cache (the write went through) or taken
  it from the cache (no scan of git history was added), so that the cache holds an
  entry \<open>f\<close> under the key of the repository and window; let the text \<open>json.dump\<close>
  writes for \<open>r1\<close> read back as \<open>r1\<close>. Then a second scan, in a world \<open>e'\<close> with the
  same key (the same resolved path and fingerprint) and at a time when the age of the
  entry is within the TTL, returns \<open>r1\<close> and leaves the state \<open>st1\<close> as it is: nothing
  is added to the list of scans of git history, and nothing is written.
\<close>

theorem cache_idempotence:
  assumes "scan_with_caching cfg e ttl now1 ok1 st repo days = (Inr r1, st1)"
    and "ok1 \<or> history_scans st1 = history_scans st"
    and "cache_files st1 (get_cache_key e repo days) = File f"
    and "json_load e (json_dump e r1) = Some r1"
    and "get_cache_key e' repo days = get_cache_key e repo days"
    and "json_load e' = json_load e"
    and "now2 - st_mtime f \<le> ttl"
  shows "scan_with_caching cfg e' ttl now2 ok2 st1 repo days = (Inr r1, st1)"
proof -
  have entry: "readable f \<and> json_load e (content f) = Some r1 \<and> r1 \<noteq> PyNone"
    using assms(1-4) by (rule scan_with_caching_entry)
  with assms(3,5,6,7)
  have "cache_get e' ttl now2 (cache_files st1) repo days = (Inr r1, cache_files st1)"
    by (intro cache_get_hit) auto
  with entry show ?thesis
    by (simp add: scan_with_caching_def)
qed

text \<open>
  An instance: a repository without commits in the window, an empty cache, a first scan
  at time 100 and a second at time 3700, with a TTL of 3600 seconds. The first scan
  scans the history and stores the empty list; the second returns it from the cache.
\<close>

theorem cache_idempotence_witness:
  "scan_with_caching default_config
      \<lparr>resolve = (\<lambda>p. p), git_log = (\<lambda>p d. Inr []),
       git_last_commit = (\<lambda>p. Inr ''2024-01-01''), md5_hexdigest = (\<lambda>s. s),
       json_dump = (\<lambda>v. ''[]''),
       json_load = (\<lambda>s. if s = ''[]'' then Some (Events []) else None)\<rparr>
      3600 100 True \<lparr>cache_files = (\<lambda>k. Absent), history_scans = []\<rparr> ''/srv/repo'' 30
    = (Inr (Events []),
       \<lparr>cache_files = ((\<lambda>k. Absent)(''/srv/repo:30:2024-01-01'' :=
            File \<lparr>st_mtime = 100, readable = True, removable = True, content = ''[]''\<rparr>)),
        history_scans = [(''/srv/repo'', 30)]\<rparr>)
   \<and> scan_with_caching default_config
      \<lparr>resolve = (\<lambda>p. p), git_log = (\<lambda>p d. Inr []),
       git_last_commit = (\<lambda>p. Inr ''2024-01-01''), md5_hexdigest = (\<lambda>s. s),
       json_dump = (\<lambda>v. ''[]''),
       json_load = (\<lambda>s. if s = ''[]'' then Some (Events []) else None)\<rparr>
      3600 3700 True
      \<lparr>cache_files = ((\<lambda>k. Absent)(''/srv/repo:30:2024-01-01'' :=
            File \<lparr>st_mtime = 100, readable = True, removable = True, content = ''[]''\<rparr>)),
       history_scans = [(''/srv/repo'', 30)]\<rparr> ''/srv/repo'' 30
    = (Inr (Events []),
       \<lparr>cache_files = ((\<lambda>k. Absent)(''/srv/repo:30:2024-01-01'' :=
            File \<lparr>st_mtime = 100, readable = True, removable = True, content = ''[]''\<rparr>)),
        history_scans = [(''/srv/repo'', 30)]\<rparr>)"
proof -
  let ?e = "\<lparr>resolve = (\<lambda>p. p), git_log = (\<lambda>p d. Inr []),
       git_last_commit = (\<lambda>p. Inr ''2024-01-01''), md5_hexdigest = (\<lambda>s. s),
       json_dump = (\<lambda>v. ''[]''),
       json_load = (\<lambda>s. if s = ''[]'' then Some (Events []) else None)\<rparr>"
  let ?k = "''/srv/repo:30:2024-01-01''"
  let ?f = "\<lparr>st_mtime = 100, readable = True, removable = True, content = ''[]''\<rparr>"
  let ?st = "\<lparr>cache_files = (\<lambda>k. Absent), history_scans = []\<rparr>"
  let ?st1 = "\<lparr>cache_files = ((\<lambda>k. Absent)(?k := File ?f)), history_scans = [(''/srv/repo'', 30)]\<rparr>"
  have k: "get_cache_key ?e ''/srv/repo'' 30 = ?k"
    by (rule example_cache_key)
  have scan: "scan_git_history default_config ?e ''/srv/repo'' 30 True = []"
    by code_simp
  have first: "scan_with_caching default_config ?e 3600 100 True ?st ''/srv/repo'' 30
                 = (Inr (Events []), ?st1)"
    by (simp add: scan_with_caching_def cache_get_def cache_set_def k scan)
  have stored: "True \<or> history_scans ?st1 = history_scans ?st"
    by simp
  have entry: "cache_files ?st1 (get_cache_key ?e ''/srv/repo'' 30) = File ?f"
    by (simp add: k)
  have roundtrip: "json_load ?e (json_dump ?e (Events [])) = Some (Events [])"
    by simp
  have age: "3700 - st_mtime ?f \<le> (3600 :: real)"
    by simp
  have second: "scan_with_caching default_config ?e 3600 3700 True ?st1 ''/srv/repo'' 30
                  = (Inr (Events []), ?st1)"
    using cache_idempotence [OF first stored entry roundtrip refl refl age] .
  from first second show ?thesis
    by (intro conjI)
qed

end
